theory Spec2Isabelle
  imports Complex_Main "HOL-Library.Log_Nat"
begin

section \<open>JavaScript numbers\<close>

text \<open>
  A JavaScript number is an IEEE 754 binary64 value. A finite one is modelled by the
  rational it denotes, so every arithmetic operation computes the exact rational result
  and rounds it to the nearest binary64 value, ties to even, as the hardware does.
  The two zeros are one value \<open>Fin 0\<close>: the code modelled here never divides by a
  zero (the estimator tests \<open>totalRatio === 0\<close> first, every other divisor is the
  constant 100), and \<open>===\<close>, \<open><\<close>, \<open>></\<close> and \<open>isNaN\<close> do not see the sign of a zero.
\<close>

datatype jsnum = NaN | PosInf | NegInf | Fin rat

text \<open>\<open>ilog2 a\<close> is the binary exponent of a positive rational: \<open>2^e \<le> a < 2^(e+1)\<close>.\<close>

definition ilog2 :: "rat \<Rightarrow> int" where
  "ilog2 a = (let p = fst (quotient_of a); q = snd (quotient_of a);
                  d = bitlen p - bitlen q
              in if 2 powi d \<le> a then d else d - 1)"

definition roundTiesToEven :: "rat \<Rightarrow> int" where
  "roundTiesToEven x = (let f = \<lfloor>x\<rfloor>; d = x - of_int f in
     if d < 1 / 2 then f
     else if 1 / 2 < d then f + 1
     else if even f then f else f + 1)"

text \<open>
  Rounding to binary64: 53 significant bits, least exponent -1022 (below it the
  spacing stays \<open>2^-1074\<close>: subnormal numbers), overflow to infinity when the rounded
  magnitude reaches \<open>2^1024\<close>.
\<close>

definition rnd :: "rat \<Rightarrow> jsnum" where
  "rnd q = (if q = 0 then Fin 0
            else let a = \<bar>q\<bar>;
                     e = max (ilog2 a) (- 1022);
                     u = 2 powi (e - 52);
                     r = of_int (roundTiesToEven (a / u)) * u
                 in if 2 powi 1024 \<le> r then (if 0 < q then PosInf else NegInf)
                    else Fin (if 0 < q then r else - r))"

fun isNaN :: "jsnum \<Rightarrow> bool" where
  "isNaN NaN = True"
| "isNaN _ = False"

fun jneg :: "jsnum \<Rightarrow> jsnum" where
  "jneg NaN = NaN"
| "jneg PosInf = NegInf"
| "jneg NegInf = PosInf"
| "jneg (Fin a) = Fin (- a)"

fun jadd :: "jsnum \<Rightarrow> jsnum \<Rightarrow> jsnum" where
  "jadd NaN _ = NaN"
| "jadd _ NaN = NaN"
| "jadd PosInf NegInf = NaN"
| "jadd NegInf PosInf = NaN"
| "jadd PosInf _ = PosInf"
| "jadd NegInf _ = NegInf"
| "jadd _ PosInf = PosInf"
| "jadd _ NegInf = NegInf"
| "jadd (Fin a) (Fin b) = rnd (a + b)"

definition jsub :: "jsnum \<Rightarrow> jsnum \<Rightarrow> jsnum" where
  "jsub x y = jadd x (jneg y)"

text \<open>The sign of a finite or infinite number: -1, 0 or 1.\<close>

fun jsign :: "jsnum \<Rightarrow> int" where
  "jsign NaN = 0"
| "jsign PosInf = 1"
| "jsign NegInf = - 1"
| "jsign (Fin a) = (if 0 < a then 1 else if a < 0 then - 1 else 0)"

definition signedInf :: "int \<Rightarrow> jsnum" where
  "signedInf s = (if 0 < s then PosInf else if s < 0 then NegInf else NaN)"

fun jmul :: "jsnum \<Rightarrow> jsnum \<Rightarrow> jsnum" where
  "jmul NaN _ = NaN"
| "jmul _ NaN = NaN"
| "jmul (Fin a) (Fin b) = rnd (a * b)"
| "jmul x y = signedInf (jsign x * jsign y)"

text \<open>
  Division. A finite non-zero number over zero is an infinity whose sign IEEE takes
  from both operands; with one zero it is the sign of the dividend.
\<close>

fun jdiv :: "jsnum \<Rightarrow> jsnum \<Rightarrow> jsnum" where
  "jdiv NaN _ = NaN"
| "jdiv _ NaN = NaN"
| "jdiv (Fin a) (Fin b) =
     (if b = 0 then signedInf (jsign (Fin a)) else rnd (a / b))"
| "jdiv (Fin a) _ = Fin 0"
| "jdiv x (Fin b) = signedInf (jsign x * (if b < 0 then - 1 else 1))"
| "jdiv _ _ = NaN"

text \<open>The comparisons \<open><\<close> and \<open>></\<close>: false as soon as one side is \<open>NaN\<close>.\<close>

fun jless :: "jsnum \<Rightarrow> jsnum \<Rightarrow> bool" where
  "jless NaN _ = False"
| "jless _ NaN = False"
| "jless (Fin a) (Fin b) = (a < b)"
| "jless PosInf _ = False"
| "jless _ PosInf = True"
| "jless _ NegInf = False"
| "jless NegInf _ = True"

definition jle :: "jsnum \<Rightarrow> jsnum \<Rightarrow> bool" where
  "jle x y = (jless x y \<or> (x = y \<and> \<not> isNaN x))"

section \<open>Strings, \<open>parseFloat\<close> and \<open>toFixed\<close>\<close>

text \<open>
  A JavaScript string is modelled as the list of the bytes of its UTF-8 encoding, so an
  ASCII string (every code, weight and quote of the feeds) is the list of its
  characters. The source's \<open>.length\<close> counts UTF-16 code units: one for each character
  of one to three bytes, two for each character of four bytes.
\<close>

definition jslength :: "string \<Rightarrow> nat" where
  "jslength s =
     length (filter (\<lambda>c. \<not> (128 \<le> (of_char c :: nat) \<and> (of_char c :: nat) < 192)) s)
     + length (filter (\<lambda>c. 240 \<le> (of_char c :: nat)) s)"

definition startsWith :: "string \<Rightarrow> string \<Rightarrow> bool" where
  "startsWith s p = (take (length p) s = p)"

fun includes' :: "string \<Rightarrow> string \<Rightarrow> bool" where
  "includes' [] p = (p = [])"
| "includes' (c # cs) p = (startsWith (c # cs) p \<or> includes' cs p)"

definition isDigit :: "char \<Rightarrow> bool" where
  "isDigit c = (48 \<le> (of_char c :: nat) \<and> (of_char c :: nat) \<le> 57)"

definition digitVal :: "char \<Rightarrow> nat" where
  "digitVal c = of_char c - 48"

definition digitsVal :: "string \<Rightarrow> nat" where
  "digitsVal ds = foldl (\<lambda>n c. 10 * n + digitVal c) 0 ds"

text \<open>
  White space that \<open>parseFloat\<close> skips, in UTF-8: TAB, LF, VT, FF, CR and SP (one
  byte); NBSP U+00A0 (two bytes); U+1680, U+2000 to U+200A, the line and paragraph
  separators U+2028 and U+2029, U+202F, U+205F, U+3000 and U+FEFF (three bytes).
  \<open>wsLength s\<close> is the number of bytes of the white-space character at the start of
  \<open>s\<close>, or 0 when \<open>s\<close> does not start with one.
\<close>

definition wsLength :: "string \<Rightarrow> nat" where
  "wsLength s =
     (case map of_char (take 3 s) :: nat list of
        [] \<Rightarrow> 0
      | b1 # bs \<Rightarrow>
          if b1 \<in> {9, 10, 11, 12, 13, 32} then 1
          else
            (case bs of
               [] \<Rightarrow> 0
             | b2 # bs' \<Rightarrow>
                 if b1 = 0xC2 \<and> b2 = 0xA0 then 2
                 else
                   (case bs' of
                      [] \<Rightarrow> 0
                    | b3 # _ \<Rightarrow>
                        if (b1 = 0xE1 \<and> b2 = 0x9A \<and> b3 = 0x80)
                           \<or> (b1 = 0xE2 \<and> b2 = 0x80
                               \<and> (0x80 \<le> b3 \<and> b3 \<le> 0x8A \<or> b3 = 0xA8 \<or> b3 = 0xA9
                                  \<or> b3 = 0xAF))
                           \<or> (b1 = 0xE2 \<and> b2 = 0x81 \<and> b3 = 0x9F)
                           \<or> (b1 = 0xE3 \<and> b2 = 0x80 \<and> b3 = 0x80)
                           \<or> (b1 = 0xEF \<and> b2 = 0xBB \<and> b3 = 0xBF)
                        then 3 else 0)))"

text \<open>The string without its leading white space.\<close>

function trimStart :: "string \<Rightarrow> string" where
  "trimStart s = (if wsLength s = 0 then s else trimStart (drop (wsLength s) s))"
  by pat_completeness auto
termination
proof (relation "measure length")
  show "wf (measure length)" by simp
next
  fix s :: string
  assume "wsLength s \<noteq> 0"
  then have "s \<noteq> []" by (auto simp add: wsLength_def)
  then show "(drop (wsLength s) s, s) \<in> measure length"
    using \<open>wsLength s \<noteq> 0\<close> by simp
qed

declare trimStart.simps [simp del]

text \<open>
  The exponent part of a decimal literal: \<open>e\<close> or \<open>E\<close>, an optional sign and at least
  one digit; anything else is not part of the literal and the exponent is 0.
\<close>

definition exponentPart :: "string \<Rightarrow> int" where
  "exponentPart s =
     (case s of
        [] \<Rightarrow> 0
      | c # r \<Rightarrow>
          if c = CHR ''e'' \<or> c = CHR ''E'' then
            (case r of
               [] \<Rightarrow> 0
             | d # r' \<Rightarrow>
                 if d = CHR ''-'' then
                   (if takeWhile isDigit r' = [] then 0
                    else - int (digitsVal (takeWhile isDigit r')))
                 else if d = CHR ''+'' then int (digitsVal (takeWhile isDigit r'))
                 else int (digitsVal (takeWhile isDigit r)))
          else 0)"

text \<open>
  The unsigned part of \<open>parseFloat\<close>: the longest prefix that is \<open>Infinity\<close>,
  \<open>digits . digits\<^sub>o\<^sub>p\<^sub>t exp\<^sub>o\<^sub>p\<^sub>t\<close>, \<open>. digits exp\<^sub>o\<^sub>p\<^sub>t\<close> or \<open>digits exp\<^sub>o\<^sub>p\<^sub>t\<close>; its exact
  decimal value, or \<open>None\<close> when no prefix is a literal. \<open>Some None\<close> is \<open>Infinity\<close>.
\<close>

definition unsignedLiteral :: "string \<Rightarrow> rat option option" where
  "unsignedLiteral u =
     (if take 8 u = ''Infinity'' then Some None
      else let ip = takeWhile isDigit u;
               r1 = dropWhile isDigit u;
               hasDot = (r1 \<noteq> [] \<and> hd r1 = CHR ''.'');
               fp = (if hasDot then takeWhile isDigit (tl r1) else []);
               r2 = (if hasDot then dropWhile isDigit (tl r1) else r1)
           in if ip = [] \<and> fp = [] then None
              else Some (Some (of_nat (digitsVal (ip @ fp)) / 10 ^ length fp
                               * 10 powi exponentPart r2)))"

definition parseFloat :: "string \<Rightarrow> jsnum" where
  "parseFloat s =
     (let t = trimStart s;
          neg = (t \<noteq> [] \<and> hd t = CHR ''-'');
          u = (if t \<noteq> [] \<and> (hd t = CHR ''-'' \<or> hd t = CHR ''+'') then tl t else t)
      in case unsignedLiteral u of
           None \<Rightarrow> NaN
         | Some None \<Rightarrow> (if neg then NegInf else PosInf)
         | Some (Some v) \<Rightarrow> rnd (if neg then - v else v))"

text \<open>The decimal digits of a natural number, without leading zeros.\<close>

definition digitChar :: "nat \<Rightarrow> char" where
  "digitChar d = ''0123456789'' ! d"

fun decimalDigits :: "nat \<Rightarrow> string" where
  "decimalDigits n =
     (if n < 10 then [digitChar n]
      else decimalDigits (n div 10) @ [digitChar (n mod 10)])"

declare decimalDigits.simps [simp del]

text \<open>
  \<open>Number::toString\<close> of a finite number \<open>x \<ge> 10^21\<close> (an integer). JavaScript prints
  the shortest decimal \<open>s * 10^(n - k)\<close>, with \<open>s\<close> of \<open>k\<close> digits, that rounds to \<open>x\<close>,
  and among the decimals of that length the one nearest to \<open>x\<close> (the even \<open>s\<close> of two
  equally near). For a given \<open>k\<close> only the two decimals around \<open>x\<close> can qualify; the
  upper one may be the next power of ten, of one digit more before the point.
\<close>

definition shortestCandidates :: "rat \<Rightarrow> nat \<Rightarrow> nat \<Rightarrow> (nat \<times> nat) list" where
  "shortestCandidates x n0 k =
     (let p = 10 ^ (n0 - k);
          lo = nat \<lfloor>x / of_nat p\<rfloor>;
          cLo = (lo, n0);
          cHi = (if lo + 1 = 10 ^ k then (10 ^ (k - 1), n0 + 1) else (lo + 1, n0));
          val = (\<lambda>c. of_nat (fst c) * 10 ^ (snd c - k));
          dLo = x - val cLo;
          dHi = val cHi - x;
          ordered = (if dLo < dHi \<or> (dLo = dHi \<and> even lo) then [cLo, cHi] else [cHi, cLo])
      in filter (\<lambda>c. rnd (val c) = Fin x) ordered)"

text \<open>
  The exponent form: the first digit of \<open>s\<close>, a point and the other digits if there are
  any, then \<open>e+\<close> and \<open>n - 1\<close>. The search runs over \<open>k\<close> from 1 to the number of digits
  of \<open>x\<close>, where a binary64 value \<open>x\<close> itself is found (for a rational that is not a
  binary64 value, which no operation of this theory produces, the digits of \<open>x\<close> are
  printed).
\<close>

definition exponentForm :: "rat \<Rightarrow> string" where
  "exponentForm x =
     (let n0 = length (decimalDigits (nat \<lfloor>x\<rfloor>))
      in case find (\<lambda>k. shortestCandidates x n0 k \<noteq> []) [1..<n0 + 1] of
           None \<Rightarrow> decimalDigits (nat \<lfloor>x\<rfloor>)
         | Some k \<Rightarrow>
             (let c = hd (shortestCandidates x n0 k);
                  d = decimalDigits (fst c)
              in (if k = 1 then d else hd d # ''.'' @ tl d)
                 @ ''e+'' @ decimalDigits (snd c - 1)))"

text \<open>
  \<open>Number.prototype.toFixed(f)\<close>. Below \<open>10^21\<close>: the integer \<open>n\<close> nearest to
  \<open>x * 10^f\<close>, the larger one of two, printed with \<open>f\<close> digits after the point. From
  \<open>10^21\<close> on the result is \<open>Number::toString\<close> of the number, in exponent form. A
  negative number is printed as its magnitude after a minus sign.
\<close>

definition toFixed :: "nat \<Rightarrow> jsnum \<Rightarrow> string" where
  "toFixed f x =
     (case x of
        NaN \<Rightarrow> ''NaN''
      | PosInf \<Rightarrow> ''Infinity''
      | NegInf \<Rightarrow> ''-Infinity''
      | Fin q \<Rightarrow>
          (if q < 0 then ''-'' else [])
          @ (if 10 ^ 21 \<le> \<bar>q\<bar> then exponentForm \<bar>q\<bar>
             else
               (let n = nat \<lfloor>\<bar>q\<bar> * 10 ^ f + 1 / 2\<rfloor>;
                    m = decimalDigits n;
                    m' = (if length m \<le> f then replicate (f + 1 - length m) (CHR ''0'') @ m
                          else m);
                    k = length m'
                in if f = 0 then m'
                   else take (k - f) m' @ ''.'' @ drop (k - f) m')))"

text \<open>
  Values of type \<open>any\<close> read from the feeds: a number, a string, or \<open>null\<close> /
  \<open>undefined\<close>. \<open>parseFloat\<close> first prints its argument; printing a number and parsing
  it again gives the number back.
\<close>

datatype jsval = JSNum jsnum | JSStr string | JSNull

fun truthy :: "jsval \<Rightarrow> bool" where
  "truthy (JSNum x) = (\<not> isNaN x \<and> x \<noteq> Fin 0)"
| "truthy (JSStr s) = (s \<noteq> [])"
| "truthy JSNull = False"

fun parseFloatVal :: "jsval \<Rightarrow> jsnum" where
  "parseFloatVal (JSNum x) = x"
| "parseFloatVal (JSStr s) = parseFloat s"
| "parseFloatVal JSNull = NaN"

section \<open>Data model\<close>

text \<open>The interfaces of the fund types, and \<open>StockQuote\<close> of the API module.\<close>

record FundBasic =
  code :: string
  name :: string
  type :: "string option"
  manager :: "string option"

record MyFund = FundBasic +
  addedAt :: nat
  shares :: "jsnum option"
  cost :: "jsnum option"

record FundEstimate =
  code :: string
  name :: string
  gsz :: string
  gszzl :: string
  gztime :: string
  dwjz :: string

record HoldingStock =
  stockCode :: string
  stockName :: string
  ratio :: string
  shares :: "string option"
  marketValue :: "string option"

record BondHolding =
  bondCode :: string
  bondName :: string
  ratio :: string

record FundDetail = FundBasic +
  updateDate :: "string option"
  holdings :: "HoldingStock list"
  totalAssets :: "string option"
  bondHoldings :: "BondHolding list option"

record StockQuote =
  code :: string
  price :: string
  changeRaw :: string
  changePct :: string

text \<open>
  \<open>Record<string, StockQuote>\<close>: the entries in insertion order, looked up with
  \<open>map_of\<close>; \<open>Object.keys(quotes).length === 0\<close> is \<open>quotes = []\<close>.
\<close>

type_synonym quotes = "(string \<times> StockQuote) list"

text \<open>\<open>s || '0'\<close>: the empty string is falsy.\<close>

definition orZero :: "string \<Rightarrow> string" where
  "orZero s = (if s = [] then ''0'' else s)"

section \<open>The real-time estimate of \<open>FundDetail\<close>\<close>

record Estimation =
  estimatedChangePct :: "jsnum option"
  realTimeEstimatedNav :: "jsnum option"
  totalKnownRatio :: jsnum

text \<open>The object returned when nothing can be estimated: both numbers \<open>null\<close>.\<close>

definition unavailable :: Estimation where
  "unavailable =
     \<lparr>estimatedChangePct = None, realTimeEstimatedNav = None, totalKnownRatio = Fin 0\<rparr>"

text \<open>
  The test of the \<open>forEach\<close> body: the holding's code has a quote, the quote's change is
  not the marker \<open>--\<close>, and both the weight and the change parse to a number.
  (\<open>changePct\<close> is a \<open>string\<close> in \<open>StockQuote\<close>, so \<open>!== undefined\<close> always holds.)
\<close>

definition contributes :: "quotes \<Rightarrow> HoldingStock \<Rightarrow> bool" where
  "contributes qs stock =
     (case map_of qs (stockCode stock) of
        None \<Rightarrow> False
      | Some quote \<Rightarrow>
          changePct quote \<noteq> ''--''
          \<and> \<not> isNaN (jdiv (parseFloat (HoldingStock.ratio stock)) (Fin 100))
          \<and> \<not> isNaN (parseFloat (changePct quote)))"

text \<open>
  One round of the \<open>forEach\<close> over the holdings, on the three variables
  \<open>(totalWeightedChange, totalRatio, hasValidData)\<close>.
\<close>

definition accumulate :: "quotes \<Rightarrow> jsnum \<times> jsnum \<times> bool \<Rightarrow> HoldingStock \<Rightarrow> jsnum \<times> jsnum \<times> bool" where
  "accumulate qs acc stock =
     (case map_of qs (stockCode stock) of
        None \<Rightarrow> acc
      | Some quote \<Rightarrow>
          if changePct quote \<noteq> ''--'' then
            (let ratio = jdiv (parseFloat (HoldingStock.ratio stock)) (Fin 100);
                 change = parseFloat (changePct quote)
             in if \<not> isNaN ratio \<and> \<not> isNaN change then
                  (case acc of (totalWeightedChange, totalRatio, hasValidData) \<Rightarrow>
                     (jadd totalWeightedChange (jmul ratio change), jadd totalRatio ratio, True))
                else acc)
          else acc)"

definition estimation :: "FundDetail option \<Rightarrow> quotes \<Rightarrow> FundEstimate option \<Rightarrow> Estimation" where
  "estimation detail qs estimate =
     (case detail of
        None \<Rightarrow> unavailable
      | Some d \<Rightarrow>
          if holdings d = [] \<or> qs = [] then unavailable
          else (case estimate of
                  None \<Rightarrow> unavailable
                | Some est \<Rightarrow>
                    (case foldl (accumulate qs) (Fin 0, Fin 0, False) (holdings d) of
                       (totalWeightedChange, totalRatio, hasValidData) \<Rightarrow>
                         if \<not> hasValidData \<or> totalRatio = Fin 0 then unavailable
                         else
                           (let extrapolatedChangePct = jdiv totalWeightedChange totalRatio;
                                baseNav = parseFloat (orZero (gsz est));
                                estimatedNav =
                                  jmul baseNav (jadd (Fin 1) (jdiv extrapolatedChangePct (Fin 100)))
                            in \<lparr>estimatedChangePct = Some extrapolatedChangePct,
                                realTimeEstimatedNav = Some estimatedNav,
                                totalKnownRatio = jmul totalRatio (Fin 100)\<rparr>))))"

text \<open>
  The quantities the specification speaks of. The weight of a holding as a fraction
  and the change of its quote, and, over the contributing holdings in the order of the
  list, the sum of weight times change and the sum of the weights. The sums are
  floating-point sums, added from the left starting at 0.
\<close>

definition holdingWeight :: "HoldingStock \<Rightarrow> jsnum" where
  "holdingWeight stock = jdiv (parseFloat (HoldingStock.ratio stock)) (Fin 100)"

definition holdingChange :: "quotes \<Rightarrow> HoldingStock \<Rightarrow> jsnum" where
  "holdingChange qs stock =
     (case map_of qs (stockCode stock) of
        None \<Rightarrow> NaN
      | Some quote \<Rightarrow> parseFloat (changePct quote))"

definition weightedChangeSum :: "quotes \<Rightarrow> HoldingStock list \<Rightarrow> jsnum" where
  "weightedChangeSum qs hs =
     foldl jadd (Fin 0)
       (map (\<lambda>h. jmul (holdingWeight h) (holdingChange qs h)) (filter (contributes qs) hs))"

definition weightSum :: "quotes \<Rightarrow> HoldingStock list \<Rightarrow> jsnum" where
  "weightSum qs hs = foldl jadd (Fin 0) (map holdingWeight (filter (contributes qs) hs))"

section \<open>The pseudo-holding of an ETF feeder fund in \<open>getFundDetail\<close>\<close>

text \<open>
  The inputs of the block that handles \<open>data.Datas.ETFCODE\<close>: the first element of
  the asset-allocation response, of which only \<open>JJ\<close> is read, and the series of
  \<open>window.Data_assetAllocation\<close>.
\<close>

record AllocationPoint =
  JJ :: "string option"

record Series =
  seriesName :: "string option"
  seriesData :: "jsval list option"

text \<open>The word looked for in a series name (two Chinese characters, "cash").\<close>

definition cashWord :: string where
  "cashWord = [CHR 0xE7, CHR 0x8E, CHR 0xB0, CHR 0xE9, CHR 0x87, CHR 0x91]"

text \<open>The text appended to the ETF's short name (" (main linked target)").\<close>

definition linkTargetSuffix :: string where
  "linkTargetSuffix =
     [CHR 0x20, CHR 0x28, CHR 0xE4, CHR 0xB8, CHR 0xBB, CHR 0xE8, CHR 0xA6, CHR 0x81,
      CHR 0xE8, CHR 0x81, CHR 0x94, CHR 0xE6, CHR 0x8E, CHR 0xA5, CHR 0xE6, CHR 0xA0,
      CHR 0x87, CHR 0xE7, CHR 0x9A, CHR 0x84, CHR 0x29]"

text \<open>
  \<open>currentTotal\<close>: the weights of the stock holdings, then of the bond holdings, added
  up from 0.
\<close>

definition currentTotal :: "HoldingStock list \<Rightarrow> BondHolding list \<Rightarrow> jsnum" where
  "currentTotal stockHoldings bonds =
     foldl (\<lambda>t b. jadd t (parseFloat (orZero (BondHolding.ratio b))))
       (foldl (\<lambda>t s. jadd t (parseFloat (orZero (HoldingStock.ratio s)))) (Fin 0) stockHoldings)
       bonds"

text \<open>
  The value of \<open>preciseEtfRatio\<close> after reading \<open>JJ\<close>. \<open>allocationDatas\<close> is
  \<open>allocationRes.data.Datas\<close>, or \<open>None\<close> when the request failed or gave no array.
\<close>

definition ratioFromAllocation :: "AllocationPoint list option \<Rightarrow> jsnum" where
  "ratioFromAllocation allocationDatas =
     (case allocationDatas of
        None \<Rightarrow> Fin 0
      | Some [] \<Rightarrow> Fin 0
      | Some (latestAllocation # _) \<Rightarrow>
          (case JJ latestAllocation of
             None \<Rightarrow> Fin 0
           | Some jj \<Rightarrow> if jj \<noteq> [] \<and> jj \<noteq> ''--'' then parseFloat jj else Fin 0))"

text \<open>
  The first value of \<open>estimatedEtfRatio\<close>. \<open>assetAllocation\<close> is the series of
  \<open>window.Data_assetAllocation\<close>, or \<open>None\<close> when that object or one of its two arrays
  is missing.
\<close>

definition ratioFromCash :: "Series list option \<Rightarrow> HoldingStock list \<Rightarrow> BondHolding list \<Rightarrow> jsnum" where
  "ratioFromCash assetAllocation stockHoldings bonds =
     (case assetAllocation of
        None \<Rightarrow> Fin 0
      | Some series \<Rightarrow>
          (case find (\<lambda>s. case seriesName s of None \<Rightarrow> False | Some n \<Rightarrow> includes' n cashWord)
                  series of
             None \<Rightarrow> Fin 0
           | Some cashSeries \<Rightarrow>
               (case seriesData cashSeries of
                  None \<Rightarrow> Fin 0
                | Some d \<Rightarrow>
                    if d = [] then Fin 0
                    else
                      (let latestCashRatio =
                             parseFloatVal (if truthy (last d) then last d else JSStr ''5'')
                       in jsub (jsub (Fin 100) latestCashRatio)
                            (currentTotal stockHoldings bonds)))))"

definition preciseEtfRatio ::
  "AllocationPoint list option \<Rightarrow> Series list option \<Rightarrow> HoldingStock list \<Rightarrow> BondHolding list \<Rightarrow> jsnum" where
  "preciseEtfRatio allocationDatas assetAllocation stockHoldings bonds =
     (let p = ratioFromAllocation allocationDatas;
          p' = (if jle p (Fin 0) \<or> jless (Fin 100) p then
                  (let e = ratioFromCash assetAllocation stockHoldings bonds
                   in if jle e (Fin 0) \<or> jless (Fin 100) e
                      then jsub (Fin 95) (currentTotal stockHoldings bonds)
                      else e)
                else p)
      in if jless p' (Fin 0) then Fin 0 else p')"

text \<open>
  The stock holdings after the block. \<open>etfCode\<close> and \<open>etfShortName\<close> are
  \<open>data.Datas.ETFCODE\<close> and \<open>data.Datas.ETFSHORTNAME\<close>, \<open>None\<close> when absent.
  (\<open>getFundDetail\<close> sorts the holdings by weight afterwards; the sort is not part
  of the block.)
\<close>

definition withEtfFeeder ::
  "string option \<Rightarrow> string option \<Rightarrow> AllocationPoint list option \<Rightarrow> Series list option
   \<Rightarrow> HoldingStock list \<Rightarrow> BondHolding list \<Rightarrow> HoldingStock list" where
  "withEtfFeeder etfCode etfShortName allocationDatas assetAllocation stockHoldings bonds =
     (case etfCode of
        None \<Rightarrow> stockHoldings
      | Some c \<Rightarrow>
          (case etfShortName of
             None \<Rightarrow> stockHoldings
           | Some n \<Rightarrow>
               if c = [] \<or> n = [] then stockHoldings
               else
                 (let p = preciseEtfRatio allocationDatas assetAllocation stockHoldings bonds
                  in if jless (Fin 0) p then
                       stockHoldings @
                         [\<lparr>stockCode = c, stockName = n @ linkTargetSuffix,
                           HoldingStock.ratio = toFixed 2 p, HoldingStock.shares = None,
                           marketValue = None\<rparr>]
                     else stockHoldings)))"

section \<open>Markets and the quote request\<close>

datatype StockMarket = SH | SZ | HK | unknown

definition getStockMarket :: "string \<Rightarrow> StockMarket" where
  "getStockMarket c =
     (if c = [] then unknown
      else if jslength c = 5 then HK
      else if startsWith c ''6'' \<or> startsWith c ''5'' then SH
      else if startsWith c ''0'' \<or> startsWith c ''3'' \<or> startsWith c ''15''
              \<or> startsWith c ''16'' \<or> startsWith c ''2'' \<or> startsWith c ''8''
              \<or> startsWith c ''4'' then SZ
      else unknown)"

text \<open>\<open>Array.prototype.join\<close>\<close>

fun join :: "string \<Rightarrow> string list \<Rightarrow> string" where
  "join sep [] = []"
| "join sep [x] = x"
| "join sep (x # y # ys) = x @ sep @ join sep (y # ys)"

text \<open>
  The entries of the query of \<open>getStockQuotes\<close>: each code with the prefix of its
  market, the empty strings of the unknown market filtered out.
\<close>

definition queryEntries :: "string list \<Rightarrow> string list" where
  "queryEntries codes =
     filter (\<lambda>s. s \<noteq> [])
       (map (\<lambda>c. let m = getStockMarket c
                 in if m = SH then ''sh'' @ c
                    else if m = SZ then ''sz'' @ c
                    else if m = HK then ''hk'' @ c
                    else []) codes)"

text \<open>The URL that \<open>getStockQuotes\<close> fetches, or \<open>None\<close> when it returns without a request.\<close>

definition quoteRequest :: "string list \<Rightarrow> string option" where
  "quoteRequest codes =
     (if codes = [] then None
      else (let query = join '','' (queryEntries codes)
            in if query = [] then None else Some (''https://qt.gtimg.cn/q='' @ query)))"

section \<open>Trading time\<close>

text \<open>What \<open>isTradingTime\<close> reads of \<open>new Date()\<close>: \<open>getDay()\<close> (0 is Sunday),
  \<open>getHours()\<close> and \<open>getMinutes()\<close>.\<close>

record LocalTime =
  day :: nat
  hours :: nat
  minutes :: nat

definition isTradingTime :: "LocalTime \<Rightarrow> bool" where
  "isTradingTime now =
     (if day now = 0 \<or> day now = 6 then False
      else (let timeNum = hours now * 100 + minutes now
            in if 900 \<le> timeNum \<and> timeNum \<le> 1200 then True
               else if 1300 \<le> timeNum \<and> timeNum < 1600 then True
               else False))"

text \<open>
  The condition under which \<open>FundDetail\<close> renders the estimated-value bar.
  (\<open>estChange\<close> is \<open>null\<close> exactly when \<open>estimatedChangePct\<close> is.)
\<close>

definition estimatedBarShown :: "Estimation \<Rightarrow> LocalTime \<Rightarrow> bool" where
  "estimatedBarShown e now =
     (realTimeEstimatedNav e \<noteq> None \<and> estimatedChangePct e \<noteq> None \<and> isTradingTime now)"

section \<open>The fund store\<close>

text \<open>
  The state of the store, and beside it the list last written to local storage under
  the key \<open>my_funds_v1\<close> (\<open>None\<close>: nothing written).
\<close>

record FundStore =
  funds :: "MyFund list"
  selectedCode :: "string option"
  estimates :: "string \<rightharpoonup> FundEstimate"
  details :: "string \<rightharpoonup> FundDetail"
  loadingEstimate :: "string \<rightharpoonup> bool"
  loadingDetail :: "string \<rightharpoonup> bool"
  localStorage :: "MyFund list option"

text \<open>
  \<open>addFund\<close>. The argument has no \<open>addedAt\<close>; it is given here as a \<open>MyFund\<close> whose
  \<open>addedAt\<close> is overwritten with \<open>now\<close>, the value of \<open>Date.now()\<close>.
\<close>

definition addFund :: "MyFund \<Rightarrow> nat \<Rightarrow> FundStore \<Rightarrow> FundStore" where
  "addFund fund now state =
     (if find (\<lambda>f. FundBasic.code f = FundBasic.code fund) (funds state) \<noteq> None then state
      else (let newFund = fund\<lparr>addedAt := now\<rparr>;
                newFunds = funds state @ [newFund]
            in state\<lparr>funds := newFunds, localStorage := Some newFunds\<rparr>))"

definition removeFund :: "string \<Rightarrow> FundStore \<Rightarrow> FundStore" where
  "removeFund c state =
     (let newFunds = filter (\<lambda>f. FundBasic.code f \<noteq> c) (funds state)
      in state\<lparr>funds := newFunds,
               selectedCode := (if selectedCode state = Some c then None else selectedCode state),
               localStorage := Some newFunds\<rparr>)"

definition selectFund :: "string \<Rightarrow> FundStore \<Rightarrow> FundStore" where
  "selectFund c state = state\<lparr>selectedCode := Some c\<rparr>"

definition setEstimate :: "string \<Rightarrow> FundEstimate \<Rightarrow> FundStore \<Rightarrow> FundStore" where
  "setEstimate c e state = state\<lparr>estimates := (estimates state)(c \<mapsto> e)\<rparr>"

definition setDetail :: "string \<Rightarrow> FundDetail \<Rightarrow> FundStore \<Rightarrow> FundStore" where
  "setDetail c d state = state\<lparr>details := (details state)(c \<mapsto> d)\<rparr>"

definition setLoadingEstimate :: "string \<Rightarrow> bool \<Rightarrow> FundStore \<Rightarrow> FundStore" where
  "setLoadingEstimate c l state = state\<lparr>loadingEstimate := (loadingEstimate state)(c \<mapsto> l)\<rparr>"

definition setLoadingDetail :: "string \<Rightarrow> bool \<Rightarrow> FundStore \<Rightarrow> FundStore" where
  "setLoadingDetail c l state = state\<lparr>loadingDetail := (loadingDetail state)(c \<mapsto> l)\<rparr>"

text \<open>The actions of the store, and the states they reach.\<close>

datatype action =
    AddFund MyFund nat
  | RemoveFund string
  | SelectFund string
  | SetEstimate string FundEstimate
  | SetDetail string FundDetail
  | SetLoadingEstimate string bool
  | SetLoadingDetail string bool

fun perform :: "FundStore \<Rightarrow> action \<Rightarrow> FundStore" where
  "perform s (AddFund fund now) = addFund fund now s"
| "perform s (RemoveFund c) = removeFund c s"
| "perform s (SelectFund c) = selectFund c s"
| "perform s (SetEstimate c e) = setEstimate c e s"
| "perform s (SetDetail c d) = setDetail c d s"
| "perform s (SetLoadingEstimate c l) = setLoadingEstimate c l s"
| "perform s (SetLoadingDetail c l) = setLoadingDetail c l s"

section \<open>Example inputs\<close>

text \<open>Holdings, quotes, details and estimates with the fields the estimate reads.\<close>

definition holding :: "string \<Rightarrow> string \<Rightarrow> HoldingStock" where
  "holding c r =
     \<lparr>stockCode = c, stockName = [], HoldingStock.ratio = r, HoldingStock.shares = None,
      marketValue = None\<rparr>"

definition quoteOf :: "string \<Rightarrow> string \<Rightarrow> string \<times> StockQuote" where
  "quoteOf c p = (c, \<lparr>StockQuote.code = c, price = [], changeRaw = [], changePct = p\<rparr>)"

definition detailOf :: "HoldingStock list \<Rightarrow> FundDetail" where
  "detailOf hs =
     \<lparr>FundBasic.code = ''000001'', FundBasic.name = [], type = None, manager = None,
      updateDate = None, holdings = hs, totalAssets = None, bondHoldings = None\<rparr>"

definition estimateOf :: "string \<Rightarrow> FundEstimate" where
  "estimateOf g =
     \<lparr>FundEstimate.code = ''000001'', FundEstimate.name = [], gsz = g, gszzl = [],
      gztime = [], dwjz = []\<rparr>"

text \<open>Two funds and the store before any action.\<close>

definition fundA :: MyFund where
  "fundA = \<lparr>FundBasic.code = ''000001'', FundBasic.name = ''A'', type = None, manager = None,
            addedAt = 0, MyFund.shares = None, cost = None\<rparr>"

definition fundB :: MyFund where
  "fundB = \<lparr>FundBasic.code = ''110022'', FundBasic.name = ''B'', type = None, manager = None,
            addedAt = 0, MyFund.shares = None, cost = None\<rparr>"

definition emptyStore :: FundStore where
  "emptyStore =
     \<lparr>funds = [], selectedCode = None, estimates = Map.empty, details = Map.empty,
      loadingEstimate = Map.empty, loadingDetail = Map.empty, localStorage = None\<rparr>"

section \<open>Rounding to binary64\<close>

lemma pow2_pos: "0 < (2::rat) powi e"
  by (simp add: power_int_def)

lemma bitlen_powi_bounds:
  assumes "0 < p"
  shows "(2::rat) powi (bitlen p - 1) \<le> of_int p" and "of_int p < (2::rat) powi (bitlen p)"
proof -
  from bitlen_bounds [OF assms]
  have lo: "2 ^ nat (bitlen p - 1) \<le> p" and hi: "p < 2 ^ nat (bitlen p)" by simp_all
  have pos: "1 \<le> bitlen p"
    using assms bitlen_eq_zero_iff [of p] bitlen_nonneg [of p] by linarith
  have "(of_int (2 ^ nat (bitlen p - 1)) :: rat) \<le> of_int p"
    using lo of_int_le_iff by blast
  then show "(2::rat) powi (bitlen p - 1) \<le> of_int p"
    using pos by (simp add: power_int_def)
  have "(of_int p :: rat) < of_int (2 ^ nat (bitlen p))"
    using hi of_int_less_iff by blast
  then show "of_int p < (2::rat) powi (bitlen p)"
    using pos by (simp add: power_int_def)
qed

lemma ilog2_bounds:
  assumes "0 < a"
  shows "2 powi (ilog2 a) \<le> a" and "a < 2 powi (ilog2 a + 1)"
proof -
  obtain p q where pq: "quotient_of a = (p, q)" by (cases "quotient_of a")
  have a: "a = of_int p / of_int q" and q: "0 < q"
    using pq quotient_of_div quotient_of_denom_pos by blast+
  have p: "0 < p" using assms a q by (simp add: zero_less_divide_iff)
  let ?d = "bitlen p - bitlen q"
  note P = bitlen_powi_bounds [OF p] and Q = bitlen_powi_bounds [OF q]
  have qr: "0 < (of_int q :: rat)" using q by simp
  have "a < 2 powi (bitlen p) / 2 powi (bitlen q - 1)"
    unfolding a using P(2) Q(1) p pow2_pos [of "bitlen q - 1"]
    by (intro frac_less) simp_all
  also have "\<dots> = 2 powi (?d + 1)"
    by (simp add: power_int_diff [symmetric] algebra_simps)
  finally have up: "a < 2 powi (?d + 1)" .
  have "2 powi (bitlen p - 1) / 2 powi (bitlen q) < a"
    unfolding a using P(1) Q(2) qr pow2_pos [of "bitlen p - 1"]
    by (intro frac_less2) simp_all
  moreover have "(2::rat) powi (bitlen p - 1) / 2 powi (bitlen q) = 2 powi (?d - 1)"
    by (simp add: power_int_diff [symmetric] algebra_simps)
  ultimately have lo: "2 powi (?d - 1) < a" by simp
  have il: "ilog2 a = (if 2 powi ?d \<le> a then ?d else ?d - 1)"
    by (simp add: ilog2_def pq Let_def)
  show "2 powi (ilog2 a) \<le> a" using lo by (simp add: il)
  show "a < 2 powi (ilog2 a + 1)" using up by (auto simp add: il)
qed

lemma ilog2_unique:
  assumes "0 < a" "2 powi e \<le> a" "a < 2 powi (e + 1)"
  shows "ilog2 a = e"
proof (rule antisym)
  show "ilog2 a \<le> e"
  proof (rule ccontr)
    assume "\<not> ilog2 a \<le> e"
    then have "e + 1 \<le> ilog2 a" by simp
    then have "(2::rat) powi (e + 1) \<le> 2 powi (ilog2 a)"
      by (intro power_int_increasing) simp_all
    with ilog2_bounds(1) [OF assms(1)] assms(3) show False by simp
  qed
  show "e \<le> ilog2 a"
  proof (rule ccontr)
    assume "\<not> e \<le> ilog2 a"
    then have "ilog2 a + 1 \<le> e" by simp
    then have "(2::rat) powi (ilog2 a + 1) \<le> 2 powi e"
      by (intro power_int_increasing) simp_all
    with ilog2_bounds(2) [OF assms(1)] assms(2) show False by simp
  qed
qed

lemma roundTiesToEven_unique:
  assumes "\<bar>x - of_int n\<bar> < 1 / 2"
  shows "roundTiesToEven x = n"
proof -
  have b: "of_int n - 1 / 2 < x" "x < of_int n + 1 / 2"
    using assms by linarith+
  have "\<lfloor>x\<rfloor> = n \<or> \<lfloor>x\<rfloor> = n - 1"
  proof (cases "of_int n \<le> x")
    case True
    then have "\<lfloor>x\<rfloor> = n" using b by (intro floor_unique) simp_all
    then show ?thesis ..
  next
    case False
    then have "\<lfloor>x\<rfloor> = n - 1" using b by (intro floor_unique) simp_all
    then show ?thesis ..
  qed
  then show ?thesis
  proof
    assume f: "\<lfloor>x\<rfloor> = n"
    have "x - of_int n < 1 / 2" using b by linarith
    then show ?thesis by (simp add: roundTiesToEven_def f)
  next
    assume f: "\<lfloor>x\<rfloor> = n - 1"
    have "of_int (n - 1) = (of_int n :: rat) - 1" by simp
    then have "1 / 2 < x - of_int (n - 1)" using b by linarith
    then show ?thesis by (simp add: roundTiesToEven_def f)
  qed
qed

lemma roundTiesToEven_error: "\<bar>x - of_int (roundTiesToEven x)\<bar> \<le> 1 / 2"
proof -
  have "of_int \<lfloor>x\<rfloor> \<le> x" "x < of_int \<lfloor>x\<rfloor> + 1" by linarith+
  then show ?thesis
    by (auto simp add: roundTiesToEven_def Let_def abs_le_iff)
qed

lemma roundTiesToEven_nonneg: "0 \<le> x \<Longrightarrow> 0 \<le> roundTiesToEven x"
  by (auto simp add: roundTiesToEven_def Let_def)


lemma rnd_pos:
  assumes "0 < q" "2 powi e \<le> q" "q < 2 powi (e + 1)" "- 1022 \<le> e"
  shows "rnd q = (let r = of_int (roundTiesToEven (q / 2 powi (e - 52))) * 2 powi (e - 52)
                  in if 2 powi 1024 \<le> r then PosInf else Fin r)"
proof -
  have "ilog2 q = e" using assms(1-3) by (rule ilog2_unique)
  moreover have "max e (- 1022) = e" using assms(4) by simp
  ultimately show ?thesis using assms(1) by (simp add: rnd_def Let_def)
qed

lemma jneg_jneg [simp]: "jneg (jneg x) = x"
  by (cases x) simp_all

lemma rnd_minus: "rnd (- q) = jneg (rnd q)"
  by (cases "q = 0") (auto simp add: rnd_def Let_def)

lemma rnd_eqI:
  assumes q: "0 < q" and lo: "2 powi e \<le> q" and hi: "q < 2 powi (e + 1)"
    and e: "- 1022 \<le> e" "e \<le> 1022"
    and n: "\<bar>q / 2 powi (e - 52) - of_int n\<bar> < 1 / 2"
  shows "rnd q = Fin (of_int n * 2 powi (e - 52))"
proof -
  let ?u = "(2::rat) powi (e - 52)"
  have u: "0 < ?u" by (rule pow2_pos)
  have rn: "roundTiesToEven (q / ?u) = n" using n by (rule roundTiesToEven_unique)
  have "q / ?u < 2 powi (e + 1) / ?u" using hi u by (simp add: divide_strict_right_mono)
  also have "\<dots> = 2 powi 53" by (simp add: power_int_diff [symmetric])
  finally have "q / ?u < 2 ^ 53" by simp
  with n have "(of_int n :: rat) < 2 ^ 53 + 1 / 2" by linarith
  then have "(of_int n :: rat) < of_int (2 ^ 53 + 1)" by simp
  then have "n < 2 ^ 53 + 1" using of_int_less_iff by blast
  then have "n \<le> 2 ^ 53" by simp
  then have "(of_int n :: rat) \<le> of_int (2 ^ 53)" using of_int_le_iff by blast
  then have "(of_int n :: rat) \<le> 2 powi 53" by simp
  then have "of_int n * ?u \<le> 2 powi 53 * ?u" using u by (simp add: mult_right_mono)
  also have "\<dots> = 2 powi (e + 1)"
  proof -
    have "(2::rat) powi (53 + (e - 52)) = 2 powi 53 * ?u" by (rule power_int_add) simp
    then show ?thesis by (simp add: add.commute)
  qed
  also have "\<dots> < 2 powi 1024" using e by (intro power_int_strict_increasing) simp_all
  finally have "\<not> 2 powi 1024 \<le> of_int n * ?u" by simp
  then show ?thesis
    using rnd_pos [OF q lo hi e(1)] rn by (simp add: Let_def)
qed

lemma rnd_eqI_neg:
  assumes "q < 0" "2 powi e \<le> - q" "- q < 2 powi (e + 1)" "- 1022 \<le> e" "e \<le> 1022"
    and "\<bar>- q / 2 powi (e - 52) - of_int n\<bar> < 1 / 2"
  shows "rnd q = Fin (- (of_int n * 2 powi (e - 52)))"
proof -
  have "rnd (- q) = Fin (of_int n * 2 powi (e - 52))"
    using assms by (intro rnd_eqI) simp_all
  then have "jneg (rnd (- q)) = Fin (- (of_int n * 2 powi (e - 52)))" by simp
  then show ?thesis by (simp add: rnd_minus)
qed

lemma rnd_rel_error_pos:
  assumes lo: "2 powi (- 1022) \<le> q" and hi: "q < 2 powi 1023"
  shows "\<exists>y. rnd q = Fin y \<and> \<bar>y - q\<bar> \<le> q / 2 ^ 53"
proof -
  have q: "0 < q" using lo pow2_pos [of "- 1022"] by linarith
  define e where "e = ilog2 q"
  have b: "2 powi e \<le> q" "q < 2 powi (e + 1)"
    unfolding e_def using ilog2_bounds [OF q] by simp_all
  have e1: "- 1022 \<le> e"
  proof (rule ccontr)
    assume "\<not> - 1022 \<le> e"
    then have "e + 1 \<le> - 1022" by simp
    then have "(2::rat) powi (e + 1) \<le> 2 powi (- 1022)"
      by (intro power_int_increasing) simp_all
    with b(2) lo show False by simp
  qed
  have e2: "e \<le> 1022"
  proof (rule ccontr)
    assume "\<not> e \<le> 1022"
    then have "1023 \<le> e" by simp
    then have "(2::rat) powi 1023 \<le> 2 powi e"
      by (intro power_int_increasing) simp_all
    with b(1) hi show False by simp
  qed
  let ?u = "(2::rat) powi (e - 52)"
  define n where "n = roundTiesToEven (q / ?u)"
  have u: "0 < ?u" by (rule pow2_pos)
  have err: "\<bar>q / ?u - of_int n\<bar> \<le> 1 / 2"
    unfolding n_def by (rule roundTiesToEven_error)
  have "\<bar>of_int n * ?u - q\<bar> = \<bar>q / ?u - of_int n\<bar> * ?u"
  proof -
    have "of_int n * ?u - q = - ((q / ?u - of_int n) * ?u)"
      using u by (simp add: field_simps)
    then show ?thesis using u by (simp add: abs_mult)
  qed
  also have "\<dots> \<le> 1 / 2 * ?u" using err u by (intro mult_right_mono) simp_all
  also have "\<dots> = 2 powi e / 2 ^ 53"
  proof -
    have "(2::rat) powi (e - 52) = 2 powi e / 2 powi 52"
      by (rule power_int_diff) simp
    then show ?thesis by simp
  qed
  finally have d: "\<bar>of_int n * ?u - q\<bar> \<le> 2 powi e / 2 ^ 53" .
  have d': "2 powi e / 2 ^ 53 \<le> q / 2 ^ 53"
    using b(1) by (simp add: divide_right_mono)
  have "q / 2 ^ 53 \<le> q" using q by (simp add: field_simps)
  with d d' have "of_int n * ?u \<le> q + q" by linarith
  also have "\<dots> < 2 * 2 powi 1023" using hi by simp
  also have "\<dots> = 2 powi 1024" by simp
  finally have "\<not> 2 powi 1024 \<le> of_int n * ?u" by simp
  then have "rnd q = Fin (of_int n * ?u)"
    using rnd_pos [OF q b e1] by (simp add: Let_def n_def)
  moreover have "\<bar>of_int n * ?u - q\<bar> \<le> q / 2 ^ 53" using d d' by linarith
  ultimately show ?thesis by blast
qed

lemma rnd_rel_error:
  assumes "2 powi (- 1022) \<le> \<bar>q\<bar>" and "\<bar>q\<bar> < 2 powi 1023"
  shows "\<exists>y. rnd q = Fin y \<and> \<bar>y - q\<bar> \<le> \<bar>q\<bar> / 2 ^ 53"
proof (cases "0 \<le> q")
  case True
  then show ?thesis using rnd_rel_error_pos [of q] assms by simp
next
  case False
  then have neg: "q < 0" by simp
  from rnd_rel_error_pos [of "- q"] assms neg
  obtain y where y: "rnd (- q) = Fin y" "\<bar>y - (- q)\<bar> \<le> - q / 2 ^ 53" by auto
  have "rnd q = Fin (- y)" using y(1) by (cases "rnd q") (simp_all add: rnd_minus)
  moreover have "\<bar>- y - q\<bar> = \<bar>y - (- q)\<bar>" by (simp add: abs_minus_commute)
  ultimately show ?thesis using y(2) neg by auto
qed

lemma rnd_0: "rnd 0 = Fin 0"
  by (simp add: rnd_def)

lemma roundTiesToEven_ge: "of_int k \<le> x \<Longrightarrow> k \<le> roundTiesToEven x"
proof -
  assume "of_int k \<le> x"
  then have "k \<le> \<lfloor>x\<rfloor>" by (simp add: le_floor_iff)
  then show ?thesis by (auto simp add: roundTiesToEven_def Let_def)
qed

lemma roundTiesToEven_le: "x \<le> of_int k \<Longrightarrow> roundTiesToEven x \<le> k"
proof (cases "x = of_int k")
  case True
  then show ?thesis by (simp add: roundTiesToEven_def)
next
  case False
  assume "x \<le> of_int k"
  with False have "x < of_int k" by simp
  then have "\<lfloor>x\<rfloor> < k" by (simp add: floor_less_iff)
  then show ?thesis by (auto simp add: roundTiesToEven_def Let_def)
qed

lemma rnd_idem_pos:
  assumes lo: "2 powi (- 1022) \<le> q" and hi: "q < 2 powi 1022" and y: "rnd q = Fin y"
  shows "rnd y = Fin y"
proof -
  have q: "0 < q" using lo pow2_pos [of "- 1022"] by linarith
  define e where "e = ilog2 q"
  have b: "2 powi e \<le> q" "q < 2 powi (e + 1)"
    unfolding e_def using ilog2_bounds [OF q] by simp_all
  have e1: "- 1022 \<le> e"
  proof (rule ccontr)
    assume "\<not> - 1022 \<le> e"
    then have "e + 1 \<le> - 1022" by simp
    then have "(2::rat) powi (e + 1) \<le> 2 powi (- 1022)"
      by (intro power_int_increasing) simp_all
    with b(2) lo show False by simp
  qed
  have e2: "e \<le> 1021"
  proof (rule ccontr)
    assume "\<not> e \<le> 1021"
    then have "1022 \<le> e" by simp
    then have "(2::rat) powi 1022 \<le> 2 powi e"
      by (intro power_int_increasing) simp_all
    with b(1) hi show False by simp
  qed
  let ?u = "(2::rat) powi (e - 52)"
  define n where "n = roundTiesToEven (q / ?u)"
  have u: "0 < ?u" by (rule pow2_pos)
  have pe: "(2::rat) powi e = 2 powi 52 * ?u"
  proof -
    have "(2::rat) powi (52 + (e - 52)) = 2 powi 52 * ?u" by (rule power_int_add) simp
    then show ?thesis by simp
  qed
  have pe1: "(2::rat) powi (e + 1) = 2 powi 53 * ?u"
  proof -
    have "(2::rat) powi (53 + (e - 52)) = 2 powi 53 * ?u" by (rule power_int_add) simp
    then show ?thesis by (simp add: add.commute)
  qed
  have "of_int (2 ^ 52) \<le> q / ?u" using b(1) u by (simp add: pe pos_le_divide_eq)
  then have n1: "2 ^ 52 \<le> n" unfolding n_def by (rule roundTiesToEven_ge)
  have "q / ?u \<le> of_int (2 ^ 53)" using b(2) u by (simp add: pe1 pos_divide_le_eq)
  then have n2: "n \<le> 2 ^ 53" unfolding n_def by (rule roundTiesToEven_le)
  have "(of_int n :: rat) \<le> of_int (2 ^ 53)" using n2 of_int_le_iff by blast
  then have "of_int n * ?u \<le> 2 powi 53 * ?u" using u by (simp add: mult_right_mono)
  also have "\<dots> = 2 powi (e + 1)" by (simp add: pe1)
  also have "\<dots> < 2 powi 1024" using e2 by (intro power_int_strict_increasing) simp_all
  finally have "\<not> 2 powi 1024 \<le> of_int n * ?u" by simp
  then have "rnd q = Fin (of_int n * ?u)"
    using rnd_pos [OF q b e1] by (simp add: Let_def n_def)
  with y have yn: "y = of_int n * ?u" by simp
  have ylo: "2 powi e \<le> y"
  proof -
    have "(of_int (2 ^ 52) :: rat) \<le> of_int n" using n1 of_int_le_iff by blast
    then have "2 powi 52 * ?u \<le> of_int n * ?u" using u by (simp add: mult_right_mono)
    then show ?thesis by (simp add: pe yn)
  qed
  then have ypos: "0 < y" using pow2_pos [of e] by linarith
  show ?thesis
  proof (cases "n = 2 ^ 53")
    case False
    with n2 have "n < 2 ^ 53" by simp
    then have "(of_int n :: rat) < of_int (2 ^ 53)" using of_int_less_iff by blast
    then have "of_int n * ?u < 2 powi 53 * ?u" using u by (simp add: mult_strict_right_mono)
    then have yhi: "y < 2 powi (e + 1)" by (simp add: pe1 yn)
    have "\<bar>y / ?u - of_int n\<bar> < 1 / 2" using u by (simp add: yn)
    then have "rnd y = Fin (of_int n * ?u)"
      using ypos ylo yhi e1 e2 by (intro rnd_eqI) simp_all
    then show ?thesis by (simp add: yn)
  next
    case True
    then have y2: "y = 2 powi (e + 1)" by (simp add: yn pe1)
    have pe2: "(2::rat) powi (e + 1) = 2 powi 52 * 2 powi (e + 1 - 52)"
    proof -
      have "(2::rat) powi (52 + (e + 1 - 52)) = 2 powi 52 * 2 powi (e + 1 - 52)"
        by (rule power_int_add) simp
      then show ?thesis by (simp add: add.commute)
    qed
    have "(2::rat) powi (e + 1) < 2 powi (e + 1 + 1)"
      by (intro power_int_strict_increasing) simp_all
    moreover have "\<bar>y / 2 powi (e + 1 - 52) - of_int (2 ^ 52)\<bar> < 1 / 2"
      using pow2_pos [of "e + 1 - 52"] by (simp add: y2 pe2)
    ultimately have "rnd y = Fin (of_int (2 ^ 52) * 2 powi (e + 1 - 52))"
      using ypos e1 e2 by (intro rnd_eqI) (simp_all add: y2)
    then show ?thesis using pe2 by (simp add: y2)
  qed
qed

lemma rnd_idem:
  assumes "2 powi (- 1022) \<le> \<bar>q\<bar>" and "\<bar>q\<bar> < 2 powi 1022" and "rnd q = Fin y"
  shows "rnd y = Fin y"
proof (cases "0 \<le> q")
  case True
  then show ?thesis using rnd_idem_pos [of q y] assms by simp
next
  case False
  then have neg: "q < 0" by simp
  have "rnd (- q) = Fin (- y)" using assms(3) by (simp add: rnd_minus)
  then have "rnd (- y) = Fin (- y)" using rnd_idem_pos [of "- q" "- y"] assms neg by simp
  then have "jneg (rnd y) = Fin (- y)" by (simp add: rnd_minus)
  then show ?thesis by (cases "rnd y") simp_all
qed

text \<open>One weight, one change: the product and the quotient each round once.\<close>

lemma pow2_mono: "a \<le> b \<Longrightarrow> (2::rat) powi a \<le> 2 powi b"
  by (intro power_int_increasing) simp_all

lemma pow2_add: "(2::rat) powi (a + b) = 2 powi a * 2 powi b"
  by (rule power_int_add) simp

lemma single_weight:
  assumes w: "2 powi (- 500) \<le> w" "w \<le> 100"
  shows "\<exists>r. rnd (w / 100) = Fin r \<and> rnd r = Fin r \<and> 2 powi (- 508) \<le> r \<and> r \<le> 2"
proof -
  define a where "a = w / 100"
  have wpos: "0 < w" using w(1) pow2_pos [of "- 500"] by linarith
  have apos: "0 < a" using wpos by (simp add: a_def)
  have "(2::rat) powi (- 507) = 2 powi (- 500) * 2 powi (- 7)"
    using pow2_add [of "- 500" "- 7"] by simp
  then have "(2::rat) powi (- 507) = 2 powi (- 500) / 128" by simp
  also have "\<dots> \<le> w / 128" using w(1) by (simp add: divide_right_mono)
  also have "\<dots> \<le> a" using wpos by (simp add: a_def)
  finally have a_lo: "2 powi (- 507) \<le> a" .
  have a_hi: "a \<le> 1" using w(2) by (simp add: a_def)
  have "(2::rat) powi (- 1022) \<le> 2 powi (- 507)" by (rule pow2_mono) simp
  then have lo: "2 powi (- 1022) \<le> a" using a_lo by linarith
  have "(2::rat) powi 0 < 2 powi 1022" by (intro power_int_strict_increasing) simp_all
  then have "(1::rat) < 2 powi 1022" by simp
  then have hi: "a < 2 powi 1022" using a_hi by linarith
  have "(2::rat) powi 1022 \<le> 2 powi 1023" by (rule pow2_mono) simp
  then have hi': "a < 2 powi 1023" using hi by linarith
  from rnd_rel_error_pos [OF lo hi']
  obtain r where r: "rnd a = Fin r" "\<bar>r - a\<bar> \<le> a / 2 ^ 53" by blast
  have "a / 2 ^ 53 \<le> a / 2" using apos by simp
  with r(2) have rb: "a / 2 \<le> r" "r \<le> 2 * a" using apos by linarith+
  have "(2::rat) powi (- 508) = 2 powi (- 507) * 2 powi (- 1)"
    using pow2_add [of "- 507" "- 1"] by simp
  then have "(2::rat) powi (- 508) = 2 powi (- 507) / 2" by simp
  then have "2 powi (- 508) \<le> r" using a_lo rb(1) by linarith
  moreover have "r \<le> 2" using rb(2) a_hi by linarith
  moreover have "rnd r = Fin r" using lo hi r(1) by (rule rnd_idem_pos)
  ultimately show ?thesis using r(1) unfolding a_def by blast
qed

lemma mul_div_close:
  assumes r: "2 powi (- 508) \<le> r" "r \<le> 2"
    and c: "2 powi (- 500) \<le> \<bar>c\<bar>" "\<bar>c\<bar> \<le> 2 powi 500"
  shows "\<exists>p y. rnd (r * c) = Fin p \<and> rnd p = Fin p \<and> rnd (p / r) = Fin y
            \<and> \<bar>y - c\<bar> \<le> \<bar>c\<bar> / 2 ^ 51"
proof -
  define ac where "ac = \<bar>c\<bar>"
  have rpos: "0 < r" using r(1) pow2_pos [of "- 508"] by linarith
  have acpos: "0 < ac" using c(1) pow2_pos [of "- 500"] by (simp add: ac_def)
  have abs_rc: "\<bar>r * c\<bar> = r * ac" using rpos by (simp add: abs_mult ac_def)
  have "(2::rat) powi (- 1008) = 2 powi (- 508) * 2 powi (- 500)"
    using pow2_add [of "- 508" "- 500"] by simp
  also have "\<dots> \<le> r * ac"
    using r(1) c(1) pow2_pos [of "- 500"] rpos unfolding ac_def by (intro mult_mono) simp_all
  finally have rc_lo: "2 powi (- 1008) \<le> r * ac" .
  have "r * ac \<le> 2 * 2 powi 500"
    using r(2) c(2) acpos unfolding ac_def by (intro mult_mono) simp_all
  also have "\<dots> = 2 powi 501" using pow2_add [of 1 500] by simp
  finally have rc_hi: "r * ac \<le> 2 powi 501" .
  have "(2::rat) powi (- 1022) \<le> 2 powi (- 1008)" by (rule pow2_mono) simp
  then have lo: "2 powi (- 1022) \<le> \<bar>r * c\<bar>"
    using rc_lo unfolding abs_rc by linarith
  have "(2::rat) powi 501 < 2 powi 1022" by (intro power_int_strict_increasing) simp_all
  then have hi: "\<bar>r * c\<bar> < 2 powi 1022" using rc_hi unfolding abs_rc by linarith
  have "(2::rat) powi 1022 \<le> 2 powi 1023" by (rule pow2_mono) simp
  then have hi': "\<bar>r * c\<bar> < 2 powi 1023" using hi by linarith
  from rnd_rel_error [OF lo hi']
  obtain p where p: "rnd (r * c) = Fin p" "\<bar>p - r * c\<bar> \<le> \<bar>r * c\<bar> / 2 ^ 53" by blast
  have pid: "rnd p = Fin p" using lo hi p(1) by (rule rnd_idem)
  have "p / r - c = (p - r * c) / r" using rpos by (simp add: field_simps)
  then have "\<bar>p / r - c\<bar> = \<bar>p - r * c\<bar> / r" using rpos by (simp add: abs_divide)
  also have "\<dots> \<le> (r * ac / 2 ^ 53) / r"
  proof -
    have "\<bar>p - r * c\<bar> \<le> r * ac / 2 ^ 53" using p(2) by (simp only: abs_rc)
    then show ?thesis by (rule divide_right_mono) (simp add: rpos less_imp_le)
  qed
  also have "\<dots> = ac / 2 ^ 53" using rpos by simp
  finally have dq: "\<bar>p / r - c\<bar> \<le> ac / 2 ^ 53" .
  have small: "ac / 2 ^ 53 \<le> ac / 2" using acpos by simp
  have t1: "ac - \<bar>p / r\<bar> \<le> \<bar>p / r - c\<bar>"
    using abs_triangle_ineq2 [of c "p / r"] by (simp add: ac_def abs_minus_commute)
  have t2: "\<bar>p / r\<bar> - ac \<le> \<bar>p / r - c\<bar>"
    using abs_triangle_ineq2 [of "p / r" c] by (simp add: ac_def)
  have pr_lo: "ac / 2 \<le> \<bar>p / r\<bar>" using t1 dq small by linarith
  have pr_hi: "\<bar>p / r\<bar> \<le> 2 * ac" using t2 dq small acpos by linarith
  have "(2::rat) powi (- 501) = 2 powi (- 500) * 2 powi (- 1)"
    using pow2_add [of "- 500" "- 1"] by simp
  then have e501: "(2::rat) powi (- 501) = 2 powi (- 500) / 2" by simp
  have c1: "2 powi (- 500) \<le> ac" using c(1) by (simp only: ac_def)
  have "2 powi (- 501) \<le> \<bar>p / r\<bar>" using e501 c1 pr_lo by linarith
  moreover have "(2::rat) powi (- 1022) \<le> 2 powi (- 501)" by (rule pow2_mono) simp
  ultimately have lo2: "2 powi (- 1022) \<le> \<bar>p / r\<bar>" by linarith
  have "2 * ac \<le> 2 * 2 powi 500" using c(2) by (simp add: ac_def)
  also have "\<dots> = 2 powi 501" using pow2_add [of 1 500] by simp
  also have "\<dots> < 2 powi 1023" by (intro power_int_strict_increasing) simp_all
  finally have hi2: "\<bar>p / r\<bar> < 2 powi 1023" using pr_hi by linarith
  from rnd_rel_error [OF lo2 hi2]
  obtain y where y: "rnd (p / r) = Fin y" "\<bar>y - p / r\<bar> \<le> \<bar>p / r\<bar> / 2 ^ 53" by blast
  have "\<bar>p / r\<bar> / 2 ^ 53 \<le> 2 * ac / 2 ^ 53" using pr_hi by (simp add: divide_right_mono)
  with y(2) have y2: "\<bar>y - p / r\<bar> \<le> 2 * ac / 2 ^ 53" by linarith
  have "\<bar>y - c\<bar> \<le> \<bar>y - p / r\<bar> + \<bar>p / r - c\<bar>"
    using abs_triangle_ineq [of "y - p / r" "p / r - c"] by simp
  also have "\<dots> \<le> 2 * ac / 2 ^ 53 + ac / 2 ^ 53" using y2 dq by linarith
  also have "\<dots> \<le> ac / 2 ^ 51" using acpos by simp
  finally have "\<bar>y - c\<bar> \<le> \<bar>c\<bar> / 2 ^ 51" by (simp add: ac_def)
  then show ?thesis using p(1) pid y(1) by blast
qed

text \<open>Rounding never gives \<open>NaN\<close>, and a finite result is below \<open>2^1024\<close>.\<close>

lemma rnd_not_NaN: "\<not> isNaN (rnd q)"
  by (simp add: rnd_def Let_def)

lemma rnd_range:
  assumes "rnd q = Fin y"
  shows "\<bar>y\<bar> < 2 powi 1024"
proof (cases "q = 0")
  case True
  then have "y = 0" using assms by (simp add: rnd_def)
  then show ?thesis using pow2_pos [of 1024] by simp
next
  case False
  define r where "r = of_int (roundTiesToEven (\<bar>q\<bar> / 2 powi (max (ilog2 \<bar>q\<bar>) (- 1022) - 52)))
    * (2::rat) powi (max (ilog2 \<bar>q\<bar>) (- 1022) - 52)"
  have "0 \<le> roundTiesToEven (\<bar>q\<bar> / 2 powi (max (ilog2 \<bar>q\<bar>) (- 1022) - 52))"
    using pow2_pos [of "max (ilog2 \<bar>q\<bar>) (- 1022) - 52"] by (intro roundTiesToEven_nonneg) simp
  then have nonneg: "0 \<le> r"
    unfolding r_def using pow2_pos [of "max (ilog2 \<bar>q\<bar>) (- 1022) - 52"] by simp
  have "rnd q = (if 2 powi 1024 \<le> r then (if 0 < q then PosInf else NegInf)
                 else Fin (if 0 < q then r else - r))"
    using False by (simp add: rnd_def Let_def r_def)
  with assms have "\<not> 2 powi 1024 \<le> r" and "y = (if 0 < q then r else - r)"
    by (auto split: if_splits)
  then have "\<bar>y\<bar> = r" and "r < 2 powi 1024" using nonneg by (auto split: if_splits)
  then show ?thesis by simp
qed

text \<open>Below \<open>2^k\<close> the rounded value is finite and at most \<open>2^k\<close>.\<close>

lemma rnd_bounded_pos:
  assumes q: "0 < q" and hi: "q < 2 powi k" and k: "- 1022 \<le> k" "k \<le> 1023"
  shows "\<exists>y. rnd q = Fin y \<and> 0 \<le> y \<and> y \<le> 2 powi k"
proof -
  define e where "e = max (ilog2 q) (- 1022)"
  define u :: rat where "u = 2 powi (e - 52)"
  define r where "r = of_int (roundTiesToEven (q / u)) * u"
  define m where "m = nat (k - e + 52)"
  have u: "0 < u" unfolding u_def by (rule pow2_pos)
  have "2 powi (ilog2 q) \<le> q" using ilog2_bounds(1) [OF q] .
  then have "(2::rat) powi (ilog2 q) < 2 powi k" using hi by linarith
  then have "ilog2 q < k" using pow2_mono [of k "ilog2 q"] by (cases "ilog2 q < k") auto
  then have ek: "e \<le> k" using k by (simp add: e_def)
  then have "k = int m + (e - 52)" by (simp add: m_def)
  then have "(2::rat) powi k = 2 powi (int m) * 2 powi (e - 52)" by (simp only: pow2_add)
  then have pk: "(2::rat) powi k = of_int (2 ^ m) * u" by (simp add: u_def)
  have "q / u < of_int (2 ^ m)" using hi u pk by (simp add: pos_divide_less_eq)
  then have "roundTiesToEven (q / u) \<le> 2 ^ m" by (intro roundTiesToEven_le) simp
  then have "(of_int (roundTiesToEven (q / u)) :: rat) \<le> of_int (2 ^ m)" by (simp only: of_int_le_iff)
  then have "r \<le> of_int (2 ^ m) * u" unfolding r_def using u by (intro mult_right_mono) simp_all
  then have rk: "r \<le> 2 powi k" using pk by simp
  have "0 \<le> roundTiesToEven (q / u)" using q u by (intro roundTiesToEven_nonneg) simp
  then have r0: "0 \<le> r" unfolding r_def using u by simp
  have "(2::rat) powi k \<le> 2 powi 1023" using k by (intro pow2_mono) simp
  moreover have "(2::rat) powi 1024 = 2 powi 1023 * 2 powi 1" by (simp only: pow2_add [symmetric]) simp
  ultimately have "r < 2 powi 1024" using rk pow2_pos [of 1023] by simp
  then have "rnd q = Fin r" using q by (simp add: rnd_def Let_def e_def u_def r_def)
  then show ?thesis using r0 rk by blast
qed

lemma rnd_bounded:
  assumes hi: "\<bar>q\<bar> < 2 powi k" and k: "- 1022 \<le> k" "k \<le> 1023"
  shows "\<exists>y. rnd q = Fin y \<and> \<bar>y\<bar> \<le> 2 powi k"
proof -
  consider "q = 0" | "0 < q" | "q < 0" by linarith
  then show ?thesis
  proof cases
    case 1
    then show ?thesis using pow2_pos [of k] by (simp add: rnd_0)
  next
    case 2
    then obtain y where "rnd q = Fin y" "0 \<le> y" "y \<le> 2 powi k"
      using rnd_bounded_pos [of q k] hi k by auto
    then show ?thesis by auto
  next
    case 3
    then obtain y where y: "rnd (- q) = Fin y" "0 \<le> y" "y \<le> 2 powi k"
      using rnd_bounded_pos [of "- q" k] hi k by auto
    have "rnd q = jneg (rnd (- q))" using rnd_minus [of "- q"] by simp
    then have "rnd q = Fin (- y)" by (simp add: y)
    then show ?thesis using y by auto
  qed
qed

lemma jdiv_range:
  assumes "jdiv a b = Fin v"
  shows "\<bar>v\<bar> < 2 powi 1024"
proof -
  have "v = 0 \<or> (\<exists>q. rnd q = Fin v)"
    using assms by (cases a; cases b) (auto simp add: signedInf_def split: if_splits)
  then show ?thesis
  proof (elim disjE exE)
    assume "v = 0"
    then show ?thesis using pow2_pos [of 1024] by simp
  next
    fix q assume "rnd q = Fin v"
    then show ?thesis by (rule rnd_range)
  qed
qed

lemma jdiv_isNaN:
  assumes "b \<noteq> Fin 0"
  shows "isNaN (jdiv a b) \<longleftrightarrow>
     isNaN a \<or> isNaN b \<or> (a = PosInf \<or> a = NegInf) \<and> (b = PosInf \<or> b = NegInf)"
  using assms by (cases a; cases b) (auto simp add: signedInf_def rnd_not_NaN)

text \<open>
  The factor \<open>1 + x / 100\<close> of a finite change \<open>x\<close> is finite, and so its product with a
  finite value is not \<open>NaN\<close>.
\<close>

lemma nav_factor_finite:
  assumes "\<bar>c\<bar> < 2 powi 1024"
  shows "\<exists>y. jadd (Fin 1) (jdiv (Fin c) (Fin 100)) = Fin y"
proof -
  have p6: "(2::rat) powi 1024 = 2 powi 1018 * 64"
    using pow2_add [of 1018 6] by simp
  have "\<bar>c / 100\<bar> * 64 \<le> \<bar>c\<bar>" by simp
  then have "\<bar>c / 100\<bar> < 2 powi 1018" using assms p6 by linarith
  then obtain v where v: "rnd (c / 100) = Fin v" "\<bar>v\<bar> \<le> 2 powi 1018"
    using rnd_bounded [of "c / 100" 1018] by auto
  have "(2::rat) powi 1 \<le> 2 powi 1018" by (intro pow2_mono) simp
  then have one: "(2::rat) \<le> 2 powi 1018" by simp
  have "(2::rat) powi 1019 = 2 powi 1018 * 2" using pow2_add [of 1018 1] by simp
  then have "\<bar>1 + v\<bar> < 2 powi 1019" using v(2) one by linarith
  then obtain y where "rnd (1 + v) = Fin y" using rnd_bounded [of "1 + v" 1019] by auto
  then show ?thesis by (simp add: v)
qed

lemma nav_not_NaN:
  assumes "jdiv a b = Fin c"
  shows "\<not> isNaN (jmul (Fin g) (jadd (Fin 1) (jdiv (jdiv a b) (Fin 100))))"
proof -
  obtain y where "jadd (Fin 1) (jdiv (Fin c) (Fin 100)) = Fin y"
    using nav_factor_finite [OF jdiv_range [OF assms]] by blast
  then show ?thesis by (simp add: assms rnd_not_NaN)
qed

section \<open>The accumulation of the estimate\<close>

lemma contributes_iff:
  "contributes qs h \<longleftrightarrow>
     (\<exists>q. map_of qs (stockCode h) = Some q \<and> changePct q \<noteq> ''--''
          \<and> \<not> isNaN (holdingWeight h) \<and> \<not> isNaN (parseFloat (changePct q)))"
  by (auto simp add: contributes_def holdingWeight_def split: option.splits)

lemma contributes_quotes: "contributes qs h \<Longrightarrow> qs \<noteq> []"
  by (auto simp add: contributes_def)

lemma accumulate_skip: "\<not> contributes qs h \<Longrightarrow> accumulate qs acc h = acc"
  by (auto simp add: contributes_def accumulate_def Let_def split: option.splits)

lemma accumulate_contributes:
  "contributes qs h \<Longrightarrow>
   accumulate qs (twc, tr, hv) h =
     (jadd twc (jmul (holdingWeight h) (holdingChange qs h)), jadd tr (holdingWeight h), True)"
  by (auto simp add: contributes_def accumulate_def holdingWeight_def holdingChange_def Let_def
      split: option.splits)

lemma foldl_accumulate:
  "foldl (accumulate qs) (twc, tr, hv) hs =
     (foldl jadd twc (map (\<lambda>h. jmul (holdingWeight h) (holdingChange qs h)) (filter (contributes qs) hs)),
      foldl jadd tr (map holdingWeight (filter (contributes qs) hs)),
      hv \<or> (\<exists>h\<in>set hs. contributes qs h))"
proof (induction hs arbitrary: twc tr hv)
  case Nil
  show ?case by simp
next
  case (Cons h hs)
  show ?case
  proof (cases "contributes qs h")
    case True
    then show ?thesis by (simp add: accumulate_contributes Cons.IH)
  next
    case False
    then show ?thesis by (simp add: accumulate_skip Cons.IH)
  qed
qed

lemma weightSum_none: "\<not> (\<exists>h\<in>set hs. contributes qs h) \<Longrightarrow> weightSum qs hs = Fin 0"
proof -
  assume "\<not> (\<exists>h\<in>set hs. contributes qs h)"
  then have "filter (contributes qs) hs = []" by (simp add: filter_empty_conv)
  then show ?thesis by (simp add: weightSum_def)
qed

lemma estimation_eq:
  "estimation (Some d) qs (Some est) =
     (if holdings d = [] \<or> qs = [] \<or> weightSum qs (holdings d) = Fin 0 then unavailable
      else \<lparr>estimatedChangePct =
              Some (jdiv (weightedChangeSum qs (holdings d)) (weightSum qs (holdings d))),
            realTimeEstimatedNav =
              Some (jmul (parseFloat (orZero (gsz est)))
                     (jadd (Fin 1)
                        (jdiv (jdiv (weightedChangeSum qs (holdings d)) (weightSum qs (holdings d)))
                           (Fin 100)))),
            totalKnownRatio = jmul (weightSum qs (holdings d)) (Fin 100)\<rparr>)"
proof (cases "\<exists>h\<in>set (holdings d). contributes qs h")
  case True
  then show ?thesis
    by (simp add: estimation_def foldl_accumulate weightSum_def weightedChangeSum_def Let_def)
next
  case False
  then have "weightSum qs (holdings d) = Fin 0" by (rule weightSum_none)
  then show ?thesis using False
    by (simp add: estimation_def foldl_accumulate Let_def)
qed

lemma estimation_None: "estimation None qs e = unavailable" "estimation d qs None = unavailable"
  by (simp_all add: estimation_def split: option.splits)

lemma filter_skip:
  "\<not> contributes qs h \<Longrightarrow> filter (contributes qs) (xs @ h # ys) = filter (contributes qs) (xs @ ys)"
  by simp

section \<open>Evaluation on examples\<close>

text \<open>
  The roundings that the examples below need. Each is checked against its binary
  exponent \<open>e\<close> and its 53-bit significand \<open>n\<close>.
\<close>

lemma rnd_fact_0: "rnd (60) = Fin (60)"
  by (rule rnd_eqI [where e = 5 and n = 8444249301319680, THEN trans]) simp_all

lemma rnd_fact_1: "rnd (3 / 5) = Fin (5404319552844595 / 9007199254740992)"
  by (rule rnd_eqI [where e = "- 1" and n = 5404319552844595, THEN trans]) simp_all

lemma rnd_fact_2: "rnd (1) = Fin (1)"
  by (rule rnd_eqI [where e = 0 and n = 4503599627370496, THEN trans]) simp_all

lemma rnd_fact_3: "rnd (5404319552844595 / 9007199254740992) = Fin (5404319552844595 / 9007199254740992)"
  by (rule rnd_eqI [where e = "- 1" and n = 5404319552844595, THEN trans]) simp_all

lemma rnd_fact_4: "rnd (40) = Fin (40)"
  by (rule rnd_eqI [where e = 5 and n = 5629499534213120, THEN trans]) simp_all

lemma rnd_fact_5: "rnd (2 / 5) = Fin (3602879701896397 / 9007199254740992)"
  by (rule rnd_eqI [where e = "- 2" and n = 7205759403792794, THEN trans]) simp_all

lemma rnd_fact_6: "rnd (- 2) = Fin (- 2)"
  by (rule rnd_eqI_neg [where e = 1 and n = 4503599627370496, THEN trans]) simp_all

lemma rnd_fact_7: "rnd (- (3602879701896397 / 4503599627370496)) = Fin (- (3602879701896397 / 4503599627370496))"
  by (rule rnd_eqI_neg [where e = "- 1" and n = 7205759403792794, THEN trans]) simp_all

lemma rnd_fact_8: "rnd (- (1801439850948199 / 9007199254740992)) = Fin (- (1801439850948199 / 9007199254740992))"
  by (rule rnd_eqI_neg [where e = "- 3" and n = 7205759403792796, THEN trans]) simp_all

lemma rnd_fact_9: "rnd (5 / 2) = Fin (5 / 2)"
  by (rule rnd_eqI [where e = 1 and n = 5629499534213120, THEN trans]) simp_all

lemma rnd_fact_10: "rnd (- (1801439850948199 / 900719925474099200)) = Fin (- (4611686018427389 / 2305843009213693952))"
  by (rule rnd_eqI_neg [where e = "- 9" and n = 4611686018427389, THEN trans]) simp_all

lemma rnd_fact_11: "rnd (2301231323195266563 / 2305843009213693952) = Fin (4494592428115755 / 4503599627370496)"
  by (rule rnd_eqI [where e = "- 1" and n = 8989184856231510, THEN trans]) simp_all

lemma rnd_fact_12: "rnd (22472962140578775 / 9007199254740992) = Fin (2809120267572347 / 1125899906842624)"
  by (rule rnd_eqI [where e = 1 and n = 5618240535144694, THEN trans]) simp_all

lemma rnd_fact_13: "rnd (100) = Fin (100)"
  by (rule rnd_eqI [where e = 6 and n = 7036874417766400, THEN trans]) simp_all

lemma rnd_fact_14: "rnd (7 / 100) = Fin (1261007895663739 / 18014398509481984)"
  by (rule rnd_eqI [where e = "- 4" and n = 5044031582654956, THEN trans]) simp_all

lemma rnd_fact_15: "rnd (1261007895663739 / 1801439850948198400) = Fin (807045053224793 / 1152921504606846976)"
  by (rule rnd_eqI [where e = "- 11" and n = 6456360425798344, THEN trans]) simp_all

lemma rnd_fact_16: "rnd (19 / 25) = Fin (3422735716801577 / 4503599627370496)"
  by (rule rnd_eqI [where e = "- 1" and n = 6845471433603154, THEN trans]) simp_all

lemma rnd_fact_17: "rnd (2762301928740528730435557898561 / 5192296858534827628530496329220096) = Fin (4906833923606741 / 9223372036854775808)"
  by (rule rnd_eqI [where e = "- 11" and n = 4906833923606741, THEN trans]) simp_all

lemma rnd_fact_18: "rnd (4906833923606741 / 9223372036854775808) = Fin (4906833923606741 / 9223372036854775808)"
  by (rule rnd_eqI [where e = "- 11" and n = 4906833923606741, THEN trans]) simp_all

lemma rnd_fact_19: "rnd (807045053224793 / 1152921504606846976) = Fin (807045053224793 / 1152921504606846976)"
  by (rule rnd_eqI [where e = "- 11" and n = 6456360425798344, THEN trans]) simp_all

lemma rnd_fact_20: "rnd (4906833923606741 / 6456360425798344) = Fin (6845471433603153 / 9007199254740992)"
  by (rule rnd_eqI [where e = "- 1" and n = 6845471433603153, THEN trans]) simp_all

lemma rnd_fact_21: "rnd (6845471433603153 / 900719925474099200) = Fin (2190550858753009 / 288230376151711744)"
  by (rule rnd_eqI [where e = "- 8" and n = 8762203435012036, THEN trans]) simp_all

lemma rnd_fact_22: "rnd (290420927010464753 / 288230376151711744) = Fin (283614186533657 / 281474976710656)"
  by (rule rnd_eqI [where e = 0 and n = 4537826984538512, THEN trans]) simp_all

lemma rnd_fact_23: "rnd (1418070932668285 / 562949953421312) = Fin (1418070932668285 / 562949953421312)"
  by (rule rnd_eqI [where e = 1 and n = 5672283730673140, THEN trans]) simp_all

lemma rnd_fact_24: "rnd (20176126330619825 / 288230376151711744) = Fin (1261007895663739 / 18014398509481984)"
  by (rule rnd_eqI [where e = "- 4" and n = 5044031582654956, THEN trans]) simp_all

lemma rnd_fact_25: "rnd (- (1 / 5)) = Fin (- (3602879701896397 / 18014398509481984))"
  by (rule rnd_eqI_neg [where e = "- 3" and n = 7205759403792794, THEN trans]) simp_all

lemma rnd_fact_26: "rnd (499 / 200) = Fin (2809120267572347 / 1125899906842624)"
  by (rule rnd_eqI [where e = 1 and n = 5618240535144694, THEN trans]) simp_all

lemma rnd_fact_27: "rnd (10) = Fin (10)"
  by (rule rnd_eqI [where e = 3 and n = 5629499534213120, THEN trans]) simp_all

lemma rnd_fact_28: "rnd (20) = Fin (20)"
  by (rule rnd_eqI [where e = 4 and n = 5629499534213120, THEN trans]) simp_all

lemma rnd_fact_29: "rnd (30) = Fin (30)"
  by (rule rnd_eqI [where e = 4 and n = 8444249301319680, THEN trans]) simp_all

lemma rnd_fact_30: "rnd (65) = Fin (65)"
  by (rule rnd_eqI [where e = 6 and n = 4573968371548160, THEN trans]) simp_all

lemma rnd_fact_31: "rnd (95) = Fin (95)"
  by (rule rnd_eqI [where e = 6 and n = 6685030696878080, THEN trans]) simp_all


lemma rnd_fact_5742: "rnd (2871 / 50) = Fin (4040573290681467 / 70368744177664)"
  by (rule rnd_eqI [where e = 5 and n = 8081146581362934, THEN trans]) simp_all

lemma rnd_fact_v90: "rnd (90) = Fin (90)"
  by (rule rnd_eqI [where e = 6 and n = 6333186975989760, THEN trans]) simp_all

lemma rnd_fact_v5: "rnd (5) = Fin (5)"
  by (rule rnd_eqI [where e = 2 and n = 5629499534213120, THEN trans]) simp_all

lemma rnd_fact_w1: "rnd (1 / 100) = Fin (5764607523034235 / 576460752303423488)"
  by (rule rnd_eqI [where e = "- 7" and n = 5764607523034235, THEN trans]) simp_all

lemma rnd_fact_w2: "rnd (582225359826457723 / 576460752303423488) = Fin (4548635623644201 / 4503599627370496)"
  by (rule rnd_eqI [where e = 0 and n = 4548635623644201, THEN trans]) simp_all

lemma rnd_fact_w3: "rnd (22743178118221005 / 9007199254740992) = Fin (5685794529555251 / 2251799813685248)"
  by (rule rnd_eqI [where e = 1 and n = 5685794529555251, THEN trans]) simp_all

lemma rnd_fact_w4: "rnd (135107988821114875 / 2251799813685248) = Fin (60)"
  by (rule rnd_eqI [where e = 5 and n = 8444249301319680, THEN trans]) simp_all

lemma rnd_fact_w5: "rnd (85) = Fin (85)"
  by (rule rnd_eqI [where e = 6 and n = 5981343255101440, THEN trans]) simp_all

lemma rnd_fact_w6: "rnd (101 / 40) = Fin (5685794529555251 / 2251799813685248)"
  by (rule rnd_eqI [where e = 1 and n = 5685794529555251, THEN trans]) simp_all

lemma rnd_fact_e22: "rnd (10000000000000000000000) = Fin (10000000000000000000000)"
  by (rule rnd_eqI [where e = 73 and n = 4768371582031250, THEN trans]) simp_all

lemma rnd_fact_e22_neg: "rnd (- 10000000000000000000000) = Fin (- 10000000000000000000000)"
  by (rule rnd_eqI_neg [where e = 73 and n = 4768371582031250, THEN trans]) simp_all

lemma rnd_fact_2e22: "rnd (20000000000000000000000) = Fin (20000000000000000000000)"
  by (rule rnd_eqI [where e = 74 and n = 4768371582031250, THEN trans]) simp_all

lemma rnd_fact_e22_95: "rnd (10000000000000000000095) = Fin (10000000000000000000000)"
  by (rule rnd_eqI [where e = 73 and n = 4768371582031250, THEN trans]) simp_all

lemmas rnd_facts = rnd_0 rnd_fact_e22 rnd_fact_e22_neg rnd_fact_2e22 rnd_fact_e22_95 rnd_fact_5742 rnd_fact_v90 rnd_fact_v5 rnd_fact_0 rnd_fact_1 rnd_fact_2 rnd_fact_3 rnd_fact_4 rnd_fact_5 rnd_fact_6 rnd_fact_7 rnd_fact_8 rnd_fact_9 rnd_fact_10 rnd_fact_11 rnd_fact_12 rnd_fact_13 rnd_fact_14 rnd_fact_15 rnd_fact_16 rnd_fact_17 rnd_fact_18 rnd_fact_19 rnd_fact_20 rnd_fact_21 rnd_fact_22 rnd_fact_23 rnd_fact_24 rnd_fact_25 rnd_fact_26 rnd_fact_27 rnd_fact_28 rnd_fact_29 rnd_fact_30 rnd_fact_31


text \<open>Unfolding \<open>parseFloat\<close> and \<open>toFixed\<close> on a literal.\<close>

lemma trimStart_none: "wsLength s = 0 \<Longrightarrow> trimStart s = s"
  by (simp add: trimStart.simps)

lemma trimStart_step: "wsLength s \<noteq> 0 \<Longrightarrow> trimStart s = trimStart (drop (wsLength s) s)"
  by (subst trimStart.simps) simp

lemmas parse_defs = parseFloat_def unsignedLiteral_def isDigit_def wsLength_def trimStart_none
  trimStart_step digitsVal_def digitVal_def exponentPart_def Let_def

lemma decimalDigits_small: "n < 10 \<Longrightarrow> decimalDigits n = [digitChar n]"
  by (simp add: decimalDigits.simps)

lemma decimalDigits_step:
  "10 \<le> n \<Longrightarrow> decimalDigits n = decimalDigits (n div 10) @ [digitChar (n mod 10)]"
  by (subst decimalDigits.simps) simp

lemma floor_numeral_div: "\<lfloor>(numeral a :: rat) / numeral b\<rfloor> = numeral a div numeral b"
  using floor_divide_of_int_eq [of "numeral a" "numeral b", where ?'a = rat] by simp

lemmas toFixed_eval = toFixed_def Let_def decimalDigits_small decimalDigits_step digitChar_def
  floor_numeral_div

lemmas estimate_eval = estimation_eq detailOf_def holding_def quoteOf_def estimateOf_def
  weightSum_def weightedChangeSum_def contributes_def holdingWeight_def holdingChange_def
  orZero_def unavailable_def parse_defs rnd_facts

lemma example_estimation:
  "estimation (Some (detailOf [holding ''600519'' ''60'', holding ''000001'' ''40'']))
     [quoteOf ''600519'' ''1.0'', quoteOf ''000001'' ''-2.0''] (Some (estimateOf ''2.5''))
   = \<lparr>estimatedChangePct = Some (Fin (- (1801439850948199 / 9007199254740992))),
      realTimeEstimatedNav = Some (Fin (2809120267572347 / 1125899906842624)),
      totalKnownRatio = Fin 100\<rparr>"
  by (simp add: estimate_eval)

lemma example_single:
  "estimation (Some (detailOf [holding ''600519'' ''0.07'']))
     [quoteOf ''600519'' ''0.76''] (Some (estimateOf ''2.5''))
   = \<lparr>estimatedChangePct = Some (Fin (6845471433603153 / 9007199254740992)),
      realTimeEstimatedNav = Some (Fin (1418070932668285 / 562949953421312)),
      totalKnownRatio = Fin (1261007895663739 / 18014398509481984)\<rparr>"
  by (simp add: estimate_eval)

lemma example_zero_weight:
  "estimation (Some (detailOf [holding ''600519'' ''0'']))
     [quoteOf ''600519'' ''1.0''] (Some (estimateOf ''2.5'')) = unavailable"
  by (simp add: estimate_eval)

lemma parse_examples:
  "parseFloat ''-0.2'' = Fin (- (3602879701896397 / 18014398509481984))"
  "parseFloat ''2.495'' = Fin (2809120267572347 / 1125899906842624)"
  "parseFloat ''0.76'' = Fin (3422735716801577 / 4503599627370496)"
  "parseFloat ''0.07'' = Fin (1261007895663739 / 18014398509481984)"
  "parseFloat ''2.5'' = Fin (5 / 2)"
  "parseFloat ''100'' = Fin 100"
  "parseFloat ''57.42'' = Fin (4040573290681467 / 70368744177664)"
  "parseFloat ''--'' = NaN"
  by (simp_all add: parse_defs rnd_facts)

text \<open>
  Leading white space outside ASCII is skipped as well: a no-break space, an
  ideographic space, a byte order mark.
\<close>

lemma parse_whitespace_examples:
  "parseFloat ([CHR 0xC2, CHR 0xA0] @ ''60'') = Fin 60"
  "parseFloat ([CHR 0xE3, CHR 0x80, CHR 0x80] @ ''-2.0'') = Fin (- 2)"
  "parseFloat ('' '' @ [CHR 0xEF, CHR 0xBB, CHR 0xBF, CHR 0x09] @ ''2.5'') = Fin (5 / 2)"
  "parseFloat ([CHR 0xE2, CHR 0x80, CHR 0x8B] @ ''7'') = NaN"
  by (simp_all add: parse_defs rnd_facts)

lemma example_estimation_whitespace:
  "estimation
     (Some (detailOf [holding ''600519'' ([CHR 0xC2, CHR 0xA0] @ ''60''), holding ''000001'' ''40'']))
     [quoteOf ''600519'' ''1.0'', quoteOf ''000001'' ([CHR 0xE3, CHR 0x80, CHR 0x80] @ ''-2.0'')]
     (Some (estimateOf ''2.5''))
   = \<lparr>estimatedChangePct = Some (Fin (- (1801439850948199 / 9007199254740992))),
      realTimeEstimatedNav = Some (Fin (2809120267572347 / 1125899906842624)),
      totalKnownRatio = Fin 100\<rparr>"
  by (simp add: estimate_eval)

lemma example_single_whitespace:
  "estimation (Some (detailOf [holding ''600519'' ([CHR 0xC2, CHR 0xA0] @ ''60'')]))
     [quoteOf ''600519'' ''1.0''] (Some (estimateOf ''2.5''))
   = \<lparr>estimatedChangePct = Some (Fin 1),
      realTimeEstimatedNav = Some (parseFloat ''2.525''),
      totalKnownRatio = Fin 60\<rparr>"
  by (simp add: estimate_eval rnd_fact_w1 rnd_fact_w2 rnd_fact_w3 rnd_fact_w4 rnd_fact_w6)



lemma total_30:
  "currentTotal [holding ''600519'' ''10'', holding ''000858'' ''20''] [] = Fin 30"
  by (simp add: currentTotal_def holding_def orZero_def parse_defs rnd_facts)

lemma toFixed_examples:
  "toFixed 2 (Fin 65) = ''65.00''"
  "toFixed 2 (Fin 100) = ''100.00''"
  "toFixed 2 (Fin 60) = ''60.00''"
  "toFixed 2 (Fin (4040573290681467 / 70368744177664)) = ''57.42''"
  by (simp_all add: toFixed_eval)

lemmas etf_eval = withEtfFeeder_def preciseEtfRatio_def ratioFromAllocation_def ratioFromCash_def
  total_30 jle_def jsub_def rnd_facts toFixed_examples parse_examples Let_def



lemma example_feeder_5742:
  "withEtfFeeder (Some ''510300'') (Some ''ETF'') (Some [\<lparr>JJ = Some ''57.42''\<rparr>]) None
     [holding ''600519'' ''10'', holding ''000858'' ''20''] []
   = [holding ''600519'' ''10'', holding ''000858'' ''20'',
       \<lparr>stockCode = ''510300'', stockName = ''ETF'' @ linkTargetSuffix,
         HoldingStock.ratio = ''57.42'', HoldingStock.shares = None, marketValue = None\<rparr>]"
  by (simp add: etf_eval)



section \<open>Markets, trading time and the store\<close>

lemma queryEntries_Cons:
  "queryEntries (c # cs) =
     (if getStockMarket c = unknown then queryEntries cs
      else ((case getStockMarket c of SH \<Rightarrow> ''sh'' | SZ \<Rightarrow> ''sz'' | HK \<Rightarrow> ''hk'' | unknown \<Rightarrow> []) @ c)
           # queryEntries cs)"
  by (cases "getStockMarket c") (simp_all add: queryEntries_def Let_def)

lemma queryEntries_eq:
  "queryEntries codes =
     map (\<lambda>c. (case getStockMarket c of SH \<Rightarrow> ''sh'' | SZ \<Rightarrow> ''sz'' | HK \<Rightarrow> ''hk'' | unknown \<Rightarrow> []) @ c)
       (filter (\<lambda>c. getStockMarket c \<noteq> unknown) codes)"
proof (induction codes)
  case Nil
  show ?case by (simp add: queryEntries_def)
next
  case (Cons c cs)
  then show ?case by (simp add: queryEntries_Cons)
qed

lemma market_600519: "getStockMarket ''600519'' = SH"
  by (simp add: getStockMarket_def jslength_def startsWith_def)

lemma market_000001: "getStockMarket ''000001'' = SZ"
  by (simp add: getStockMarket_def jslength_def startsWith_def)

lemma market_00700: "getStockMarket ''00700'' = HK"
  by (simp add: getStockMarket_def jslength_def startsWith_def)

lemma market_999999: "getStockMarket ''999999'' = unknown"
  by (simp add: getStockMarket_def jslength_def startsWith_def)

lemma isTradingTime_iff:
  "isTradingTime now \<longleftrightarrow>
     day now \<noteq> 0 \<and> day now \<noteq> 6
     \<and> (900 \<le> hours now * 100 + minutes now \<and> hours now * 100 + minutes now \<le> 1200
        \<or> 1300 \<le> hours now * 100 + minutes now \<and> hours now * 100 + minutes now < 1600)"
  by (simp add: isTradingTime_def Let_def)

lemma timeNum_bounds:
  fixes h m :: nat
  assumes "m < 60"
  shows "900 \<le> h * 100 + m \<longleftrightarrow> 9 \<le> h"
    and "h * 100 + m \<le> 1200 \<longleftrightarrow> h \<le> 11 \<or> h = 12 \<and> m = 0"
    and "1300 \<le> h * 100 + m \<longleftrightarrow> 13 \<le> h"
    and "h * 100 + m < 1600 \<longleftrightarrow> h \<le> 15"
  using assms by linarith+

lemma minutes_bounds:
  fixes h m :: nat
  assumes "m < 60"
  shows "540 \<le> h * 60 + m \<longleftrightarrow> 9 \<le> h"
    and "h * 60 + m \<le> 720 \<longleftrightarrow> h \<le> 11 \<or> h = 12 \<and> m = 0"
    and "780 \<le> h * 60 + m \<longleftrightarrow> 13 \<le> h"
    and "h * 60 + m < 960 \<longleftrightarrow> h \<le> 15"
  using assms by linarith+

lemma find_code_iff:
  "find (\<lambda>f. FundBasic.code f = c) fs \<noteq> None \<longleftrightarrow> c \<in> set (map FundBasic.code fs)"
  by (induction fs) auto

lemma addFund_present:
  "FundBasic.code fund \<in> set (map FundBasic.code (funds s)) \<Longrightarrow> addFund fund now s = s"
  using find_code_iff [of "FundBasic.code fund" "funds s"] by (simp add: addFund_def)

lemma addFund_distinct:
  assumes "distinct (map FundBasic.code (funds s))"
  shows "distinct (map FundBasic.code (funds (addFund fund now s)))"
proof (cases "FundBasic.code fund \<in> set (map FundBasic.code (funds s))")
  case True
  then show ?thesis using assms by (simp add: addFund_present)
next
  case False
  then have "find (\<lambda>f. FundBasic.code f = FundBasic.code fund) (funds s) = None"
    using find_code_iff [of "FundBasic.code fund" "funds s"] by blast
  then show ?thesis using assms False by (simp add: addFund_def Let_def)
qed

lemma removeFund_distinct:
  "distinct (map FundBasic.code (funds s))
   \<Longrightarrow> distinct (map FundBasic.code (funds (removeFund c s)))"
  by (simp add: removeFund_def Let_def distinct_map_filter)

lemma perform_distinct:
  "distinct (map FundBasic.code (funds s))
   \<Longrightarrow> distinct (map FundBasic.code (funds (perform s a)))"
  by (cases a)
    (simp_all add: addFund_distinct removeFund_distinct selectFund_def setEstimate_def
      setDetail_def setLoadingEstimate_def setLoadingDetail_def)

lemma foldl_perform_distinct:
  "distinct (map FundBasic.code (funds s))
   \<Longrightarrow> distinct (map FundBasic.code (funds (foldl perform s as)))"
  by (induction as arbitrary: s) (simp_all add: perform_distinct)

section \<open>The estimate: claims C1 to C5\<close>

lemma nav_formula:
  assumes "estimatedChangePct (estimation detail qs estimate) = Some x"
  shows "\<exists>est. estimate = Some est
          \<and> realTimeEstimatedNav (estimation detail qs estimate)
              = Some (jmul (parseFloat (orZero (gsz est))) (jadd (Fin 1) (jdiv x (Fin 100))))"
proof (cases detail)
  case None
  then show ?thesis using assms by (simp add: estimation_None unavailable_def)
next
  case (Some d)
  show ?thesis
  proof (cases estimate)
    case None
    then show ?thesis using assms by (simp add: estimation_None unavailable_def)
  next
    case (Some est)
    then show ?thesis using assms \<open>detail = Some d\<close>
      by (simp add: estimation_eq unavailable_def split: if_splits)
  qed
qed

lemma not_contributes:
  assumes "map_of qs (stockCode h) = None
    \<or> (\<exists>q. map_of qs (stockCode h) = Some q
           \<and> (changePct q = ''--'' \<or> isNaN (parseFloat (changePct q))))"
  shows "\<not> contributes qs h"
  using assms by (auto simp add: contributes_iff)

lemma estimation_weight0:
  "weightSum qs (holdings d) = Fin 0 \<Longrightarrow> estimation (Some d) qs (Some est) = unavailable"
  by (simp add: estimation_eq)

lemma estimation_skip:
  assumes "\<not> contributes qs h"
  shows "estimation (Some (d\<lparr>holdings := xs @ h # ys\<rparr>)) qs estimate
       = estimation (Some (d\<lparr>holdings := xs @ ys\<rparr>)) qs estimate"
proof (cases estimate)
  case None
  then show ?thesis by (simp add: estimation_None)
next
  case (Some est)
  have f: "filter (contributes qs) (xs @ h # ys) = filter (contributes qs) (xs @ ys)"
    using assms by simp
  have w: "weightSum qs (xs @ h # ys) = weightSum qs (xs @ ys)"
    and c: "weightedChangeSum qs (xs @ h # ys) = weightedChangeSum qs (xs @ ys)"
    by (simp_all only: weightSum_def weightedChangeSum_def f)
  show ?thesis
  proof (cases "xs @ ys = []")
    case True
    then have b: "weightSum qs (xs @ ys) = Fin 0" by (simp add: weightSum_def)
    have "estimation (Some (d\<lparr>holdings := xs @ h # ys\<rparr>)) qs (Some est) = unavailable"
      by (rule estimation_weight0) (simp add: w b)
    moreover have "estimation (Some (d\<lparr>holdings := xs @ ys\<rparr>)) qs (Some est) = unavailable"
      by (rule estimation_weight0) (simp add: b)
    ultimately show ?thesis using Some by simp
  next
    case False
    then show ?thesis using Some by (auto simp add: estimation_eq w c)
  qed
qed

lemma example_fields:
  "holdings (detailOf hs) = hs"
  "(detailOf hs0)\<lparr>holdings := hs\<rparr> = detailOf hs"
  "gsz (estimateOf g) = g"
  by (simp_all add: detailOf_def estimateOf_def)

text \<open>
  C1, as stated, fails. The claim promises a change percentage (weighted sum over
  weight sum) as soon as one holding has a resolvable quote with a numeric change and
  a numeric weight. A single holding of weight \<open>"0"\<close> with the quote change \<open>"1.0"\<close> is
  such a holding, yet the weight sum is 0, the guard \<open>totalRatio === 0\<close> fires and the
  change percentage is \<open>null\<close>.
\<close>

theorem weighted_average_zero_weight_counterexample:
  "contributes [quoteOf ''600519'' ''1.0''] (holding ''600519'' ''0'')
   \<and> estimatedChangePct
        (estimation (Some (detailOf [holding ''600519'' ''0'']))
           [quoteOf ''600519'' ''1.0''] (Some (estimateOf ''2.5''))) = None"
  using example_zero_weight
  by (simp add: unavailable_def contributes_def holding_def quoteOf_def parse_defs rnd_facts)

text \<open>
  C1, amended: for every holdings list, quote map and fund estimate, when the weight
  sum of the contributing holdings is zero the estimate is unavailable; and when at
  least one holding contributes (its code has a quote, the quote's change is not \<open>--\<close>
  and parses to a number, and its weight parses to a number) and the weight sum of the
  contributing holdings is not zero, the change percentage of the estimate is the sum
  over the contributing holdings of \<open>(weight / 100) * changePct\<close> divided by the sum over
  the same holdings of \<open>weight / 100\<close>, and the total known weight is that weight sum
  times 100. The sums and the quotient are the floating-point ones, taken in the order
  of the list.
\<close>

theorem weighted_average_of_contributing:
  "(weightSum qs (holdings d) = Fin 0
      \<longrightarrow> estimation (Some d) qs (Some est) = unavailable)
   \<and> ((\<exists>h\<in>set (holdings d). contributes qs h) \<and> weightSum qs (holdings d) \<noteq> Fin 0
      \<longrightarrow> estimatedChangePct (estimation (Some d) qs (Some est))
            = Some (jdiv (weightedChangeSum qs (holdings d)) (weightSum qs (holdings d)))
          \<and> totalKnownRatio (estimation (Some d) qs (Some est))
            = jmul (weightSum qs (holdings d)) (Fin 100))"
proof (intro conjI impI)
  assume "weightSum qs (holdings d) = Fin 0"
  then show "estimation (Some d) qs (Some est) = unavailable" by (rule estimation_weight0)
next
  assume a: "(\<exists>h\<in>set (holdings d). contributes qs h) \<and> weightSum qs (holdings d) \<noteq> Fin 0"
  then obtain h where "h \<in> set (holdings d)" and "contributes qs h" by blast
  then have ne: "holdings d \<noteq> []" "qs \<noteq> []" by (auto dest: contributes_quotes)
  show "estimatedChangePct (estimation (Some d) qs (Some est))
      = Some (jdiv (weightedChangeSum qs (holdings d)) (weightSum qs (holdings d)))"
    using a ne by (simp add: estimation_eq)
  show "totalKnownRatio (estimation (Some d) qs (Some est))
      = jmul (weightSum qs (holdings d)) (Fin 100)"
    using a ne by (simp add: estimation_eq)
qed

theorem weighted_average_of_contributing_witness:
  "(\<exists>h\<in>set (holdings (detailOf [holding ''600519'' ''60'', holding ''000001'' ''40''])).
      contributes [quoteOf ''600519'' ''1.0'', quoteOf ''000001'' ''-2.0''] h)
   \<and> weightSum [quoteOf ''600519'' ''1.0'', quoteOf ''000001'' ''-2.0'']
        (holdings (detailOf [holding ''600519'' ''60'', holding ''000001'' ''40''])) = Fin 1
   \<and> estimatedChangePct
        (estimation (Some (detailOf [holding ''600519'' ''60'', holding ''000001'' ''40'']))
           [quoteOf ''600519'' ''1.0'', quoteOf ''000001'' ''-2.0''] (Some (estimateOf ''2.5'')))
      = Some (jdiv
          (weightedChangeSum [quoteOf ''600519'' ''1.0'', quoteOf ''000001'' ''-2.0'']
             (holdings (detailOf [holding ''600519'' ''60'', holding ''000001'' ''40''])))
          (Fin 1))
   \<and> totalKnownRatio
        (estimation (Some (detailOf [holding ''600519'' ''60'', holding ''000001'' ''40'']))
           [quoteOf ''600519'' ''1.0'', quoteOf ''000001'' ''-2.0''] (Some (estimateOf ''2.5'')))
      = Fin 100
   \<and> weightSum [quoteOf ''600519'' ''1.0''] (holdings (detailOf [holding ''600519'' ''0'']))
      = Fin 0
   \<and> estimation (Some (detailOf [holding ''600519'' ''0'']))
        [quoteOf ''600519'' ''1.0''] (Some (estimateOf ''2.5'')) = unavailable"
proof -
  let ?d = "detailOf [holding ''600519'' ''60'', holding ''000001'' ''40'']"
  let ?qs = "[quoteOf ''600519'' ''1.0'', quoteOf ''000001'' ''-2.0'']"
  let ?z = "detailOf [holding ''600519'' ''0'']"
  let ?p = "[quoteOf ''600519'' ''1.0'']"
  have h1: "\<exists>h\<in>set (holdings ?d). contributes ?qs h"
    by (simp add: detailOf_def holding_def quoteOf_def contributes_def parse_defs rnd_facts)
  have w: "weightSum ?qs (holdings ?d) = Fin 1"
    by (simp add: detailOf_def holding_def quoteOf_def weightSum_def contributes_def
        holdingWeight_def parse_defs rnd_facts)
  have w0: "weightSum ?p (holdings ?z) = Fin 0"
    by (simp add: detailOf_def holding_def quoteOf_def weightSum_def contributes_def
        holdingWeight_def parse_defs rnd_facts)
  have first: "estimatedChangePct (estimation (Some ?d) ?qs (Some (estimateOf ''2.5'')))
      = Some (jdiv (weightedChangeSum ?qs (holdings ?d)) (Fin 1))
    \<and> totalKnownRatio (estimation (Some ?d) ?qs (Some (estimateOf ''2.5''))) = Fin 100"
  proof -
    have h2: "weightSum ?qs (holdings ?d) \<noteq> Fin 0" by (simp add: w)
    have "estimatedChangePct (estimation (Some ?d) ?qs (Some (estimateOf ''2.5'')))
        = Some (jdiv (weightedChangeSum ?qs (holdings ?d)) (weightSum ?qs (holdings ?d)))
      \<and> totalKnownRatio (estimation (Some ?d) ?qs (Some (estimateOf ''2.5'')))
        = jmul (weightSum ?qs (holdings ?d)) (Fin 100)"
      using weighted_average_of_contributing [of ?qs ?d "estimateOf ''2.5''"] h1 h2 by blast
    then show ?thesis by (simp add: w rnd_facts)
  qed
  have second: "estimation (Some ?z) ?p (Some (estimateOf ''2.5'')) = unavailable"
    using weighted_average_of_contributing [of ?p ?z "estimateOf ''2.5''"] w0 by simp
  show ?thesis using h1 w w0 first second by blast
qed

text \<open>
  C2, as stated, fails in its example. With the last value 2.5 and the holdings
  (weight 60, change +1.0) and (weight 40, change -2.0), the change percentage is not
  the number -0.2: the weights 0.6 and 0.4 and the product -0.8 are rounded, and their
  sum \<open>0.6 + (-0.8)\<close> is a binary64 value slightly below the one of -0.2, printed
  -0.20000000000000007.
\<close>

theorem example_change_not_minus_point_two:
  "estimatedChangePct
     (estimation (Some (detailOf [holding ''600519'' ''60'', holding ''000001'' ''40'']))
        [quoteOf ''600519'' ''1.0'', quoteOf ''000001'' ''-2.0''] (Some (estimateOf ''2.5'')))
     = Some (Fin (- (1801439850948199 / 9007199254740992)))
   \<and> parseFloat ''-0.2'' = Fin (- (3602879701896397 / 18014398509481984))
   \<and> estimatedChangePct
     (estimation (Some (detailOf [holding ''600519'' ''60'', holding ''000001'' ''40'']))
        [quoteOf ''600519'' ''1.0'', quoteOf ''000001'' ''-2.0''] (Some (estimateOf ''2.5'')))
     \<noteq> Some (parseFloat ''-0.2'')"
  by (simp add: example_estimation parse_examples)

text \<open>
  C2, amended: whenever the estimate has a change percentage \<open>x\<close>, a fund estimate is
  present and the estimated value is \<open>lastNav * (1 + x / 100)\<close> in floating-point
  arithmetic, where \<open>lastNav\<close> is the parsed \<open>gsz\<close> of the fund estimate (0 for an empty
  \<open>gsz\<close>). For the last value 2.5 and the holdings (weight 60, change +1.0) and
  (weight 40, change -2.0), all with quotes, the change percentage is the binary64
  value -0.20000000000000007, the estimated value is the binary64 value of 2.495, and
  the total known weight is 100.
\<close>

theorem estimated_nav_formula:
  "(estimatedChangePct (estimation detail qs estimate) = Some x \<longrightarrow>
      (\<exists>est. estimate = Some est
         \<and> realTimeEstimatedNav (estimation detail qs estimate)
             = Some (jmul (parseFloat (orZero (gsz est))) (jadd (Fin 1) (jdiv x (Fin 100))))))
   \<and> estimation (Some (detailOf [holding ''600519'' ''60'', holding ''000001'' ''40'']))
        [quoteOf ''600519'' ''1.0'', quoteOf ''000001'' ''-2.0''] (Some (estimateOf ''2.5''))
      = \<lparr>estimatedChangePct = Some (Fin (- (1801439850948199 / 9007199254740992))),
         realTimeEstimatedNav = Some (parseFloat ''2.495''),
         totalKnownRatio = Fin 100\<rparr>"
proof (intro conjI impI)
  assume "estimatedChangePct (estimation detail qs estimate) = Some x"
  then show "\<exists>est. estimate = Some est
      \<and> realTimeEstimatedNav (estimation detail qs estimate)
          = Some (jmul (parseFloat (orZero (gsz est))) (jadd (Fin 1) (jdiv x (Fin 100))))"
    by (rule nav_formula)
next
  show "estimation (Some (detailOf [holding ''600519'' ''60'', holding ''000001'' ''40'']))
        [quoteOf ''600519'' ''1.0'', quoteOf ''000001'' ''-2.0''] (Some (estimateOf ''2.5''))
      = \<lparr>estimatedChangePct = Some (Fin (- (1801439850948199 / 9007199254740992))),
         realTimeEstimatedNav = Some (parseFloat ''2.495''),
         totalKnownRatio = Fin 100\<rparr>"
    by (simp add: example_estimation parse_examples)
qed

theorem estimated_nav_formula_witness:
  "estimatedChangePct
     (estimation (Some (detailOf [holding ''600519'' ''60'', holding ''000001'' ''40'']))
        [quoteOf ''600519'' ''1.0'', quoteOf ''000001'' ''-2.0''] (Some (estimateOf ''2.5'')))
     = Some (Fin (- (1801439850948199 / 9007199254740992)))
   \<and> realTimeEstimatedNav
     (estimation (Some (detailOf [holding ''600519'' ''60'', holding ''000001'' ''40'']))
        [quoteOf ''600519'' ''1.0'', quoteOf ''000001'' ''-2.0''] (Some (estimateOf ''2.5'')))
     = Some (jmul (parseFloat ''2.5'')
         (jadd (Fin 1) (jdiv (Fin (- (1801439850948199 / 9007199254740992))) (Fin 100))))"
  using estimated_nav_formula
    [of "Some (detailOf [holding ''600519'' ''60'', holding ''000001'' ''40''])"
        "[quoteOf ''600519'' ''1.0'', quoteOf ''000001'' ''-2.0'']"
        "Some (estimateOf ''2.5'')" "Fin (- (1801439850948199 / 9007199254740992))"]
  by (simp add: example_estimation example_fields orZero_def)

text \<open>
  C3, as stated, fails in its last part, "otherwise a numeric result is produced".
  A single holding of weight \<open>"--"\<close> whose code has the quote change \<open>"1.0"\<close> has a
  resolvable numeric quote, the holdings and the quotes are not empty and a fund
  estimate is present, yet the holding does not contribute (its weight is not a
  number) and the estimate is unavailable. And for the holdings (weight 60, change
  +1.0) and (weight 40, change -2.0) with a fund estimate whose \<open>gsz\<close> is \<open>"--"\<close>, the
  estimate is not unavailable but its estimated value is \<open>NaN\<close>, not a number.
\<close>

theorem numeric_quote_unavailable_counterexample:
  "map_of [quoteOf ''600519'' ''1.0''] (stockCode (holding ''600519'' ''--''))
     = Some (snd (quoteOf ''600519'' ''1.0''))
   \<and> parseFloat (changePct (snd (quoteOf ''600519'' ''1.0''))) = Fin 1
   \<and> estimation (Some (detailOf [holding ''600519'' ''--'']))
        [quoteOf ''600519'' ''1.0''] (Some (estimateOf ''2.5'')) = unavailable
   \<and> estimation (Some (detailOf [holding ''600519'' ''60'', holding ''000001'' ''40'']))
        [quoteOf ''600519'' ''1.0'', quoteOf ''000001'' ''-2.0''] (Some (estimateOf ''--''))
      = \<lparr>estimatedChangePct = Some (Fin (- (1801439850948199 / 9007199254740992))),
         realTimeEstimatedNav = Some NaN,
         totalKnownRatio = Fin 100\<rparr>"
  by (simp add: estimate_eval)

text \<open>
  C3, amended: the estimate is unavailable (both numbers \<open>null\<close>, total known weight 0)
  when there is no detail, no holding, no quote or no fund estimate, and otherwise
  exactly when the weight sum of the contributing holdings is 0 (\<open>weightSum == 0\<close>).
  A holding contributes when its code has a quote whose change is not \<open>--\<close> and parses
  to a number, and its weight parses to a number; when no holding contributes the
  weight sum is 0. (The weight sum is also 0 for a contributing holding of weight
  \<open>"0"\<close>: a holding with a numeric quote is not enough for a result.) In every other
  case both the change percentage and the estimated value are produced. The change
  percentage is then \<open>NaN\<close> only if the weighted sum or the weight sum is \<open>NaN\<close> or both
  are infinite, and the estimated value is not \<open>NaN\<close> when the change percentage is
  finite and \<open>gsz\<close> parses to a finite number.
\<close>

theorem unavailable_iff:
  "estimation None qs estimate = unavailable
   \<and> estimation detail qs None = unavailable
   \<and> (estimation (Some d) qs (Some est) = unavailable
        \<longleftrightarrow> holdings d = [] \<or> qs = [] \<or> weightSum qs (holdings d) = Fin 0)
   \<and> (contributes qs h \<longleftrightarrow>
        (\<exists>q. map_of qs (stockCode h) = Some q \<and> changePct q \<noteq> ''--''
             \<and> \<not> isNaN (parseFloat (changePct q))
             \<and> \<not> isNaN (jdiv (parseFloat (HoldingStock.ratio h)) (Fin 100))))
   \<and> ((\<forall>h\<in>set (holdings d). \<not> contributes qs h) \<longrightarrow> weightSum qs (holdings d) = Fin 0)
   \<and> (estimation (Some d) qs (Some est) \<noteq> unavailable \<longrightarrow>
        (\<exists>x v. estimatedChangePct (estimation (Some d) qs (Some est)) = Some x
           \<and> realTimeEstimatedNav (estimation (Some d) qs (Some est)) = Some v
           \<and> (isNaN x \<longleftrightarrow>
                isNaN (weightedChangeSum qs (holdings d)) \<or> isNaN (weightSum qs (holdings d))
                \<or> (weightedChangeSum qs (holdings d) = PosInf
                    \<or> weightedChangeSum qs (holdings d) = NegInf)
                  \<and> (weightSum qs (holdings d) = PosInf \<or> weightSum qs (holdings d) = NegInf))
           \<and> ((\<exists>c g. x = Fin c \<and> parseFloat (orZero (gsz est)) = Fin g) \<longrightarrow> \<not> isNaN v)))
   \<and> unavailable
      = \<lparr>estimatedChangePct = None, realTimeEstimatedNav = None, totalKnownRatio = Fin 0\<rparr>"
proof (intro conjI)
  show "estimation None qs estimate = unavailable" by (rule estimation_None)
  show "estimation detail qs None = unavailable" by (rule estimation_None)
  show "estimation (Some d) qs (Some est) = unavailable
      \<longleftrightarrow> holdings d = [] \<or> qs = [] \<or> weightSum qs (holdings d) = Fin 0"
    by (simp add: estimation_eq unavailable_def)
  show "contributes qs h \<longleftrightarrow>
      (\<exists>q. map_of qs (stockCode h) = Some q \<and> changePct q \<noteq> ''--''
           \<and> \<not> isNaN (parseFloat (changePct q))
           \<and> \<not> isNaN (jdiv (parseFloat (HoldingStock.ratio h)) (Fin 100)))"
    by (auto simp add: contributes_def split: option.splits)
  show "(\<forall>h\<in>set (holdings d). \<not> contributes qs h) \<longrightarrow> weightSum qs (holdings d) = Fin 0"
    using weightSum_none [of "holdings d" qs] by simp
  show "unavailable
      = \<lparr>estimatedChangePct = None, realTimeEstimatedNav = None, totalKnownRatio = Fin 0\<rparr>"
    by (rule unavailable_def)
  show "estimation (Some d) qs (Some est) \<noteq> unavailable \<longrightarrow>
      (\<exists>x v. estimatedChangePct (estimation (Some d) qs (Some est)) = Some x
         \<and> realTimeEstimatedNav (estimation (Some d) qs (Some est)) = Some v
         \<and> (isNaN x \<longleftrightarrow>
              isNaN (weightedChangeSum qs (holdings d)) \<or> isNaN (weightSum qs (holdings d))
              \<or> (weightedChangeSum qs (holdings d) = PosInf
                  \<or> weightedChangeSum qs (holdings d) = NegInf)
                \<and> (weightSum qs (holdings d) = PosInf \<or> weightSum qs (holdings d) = NegInf))
         \<and> ((\<exists>c g. x = Fin c \<and> parseFloat (orZero (gsz est)) = Fin g) \<longrightarrow> \<not> isNaN v))"
  proof
    let ?wc = "weightedChangeSum qs (holdings d)"
    let ?ws = "weightSum qs (holdings d)"
    let ?x = "jdiv ?wc ?ws"
    let ?v = "jmul (parseFloat (orZero (gsz est))) (jadd (Fin 1) (jdiv ?x (Fin 100)))"
    assume "estimation (Some d) qs (Some est) \<noteq> unavailable"
    then have ne: "\<not> (holdings d = [] \<or> qs = [] \<or> ?ws = Fin 0)"
      by (simp add: estimation_eq split: if_splits)
    then have ws: "?ws \<noteq> Fin 0" by simp
    have x: "estimatedChangePct (estimation (Some d) qs (Some est)) = Some ?x"
      and v: "realTimeEstimatedNav (estimation (Some d) qs (Some est)) = Some ?v"
      using ne by (simp_all add: estimation_eq)
    have n: "isNaN ?x \<longleftrightarrow>
        isNaN ?wc \<or> isNaN ?ws \<or> (?wc = PosInf \<or> ?wc = NegInf) \<and> (?ws = PosInf \<or> ?ws = NegInf)"
      by (rule jdiv_isNaN [OF ws])
    have f: "(\<exists>c g. ?x = Fin c \<and> parseFloat (orZero (gsz est)) = Fin g) \<longrightarrow> \<not> isNaN ?v"
    proof
      assume "\<exists>c g. ?x = Fin c \<and> parseFloat (orZero (gsz est)) = Fin g"
      then obtain c g where c: "?x = Fin c" and g: "parseFloat (orZero (gsz est)) = Fin g"
        by blast
      show "\<not> isNaN ?v" unfolding g by (rule nav_not_NaN [OF c])
    qed
    show "\<exists>x v. estimatedChangePct (estimation (Some d) qs (Some est)) = Some x
         \<and> realTimeEstimatedNav (estimation (Some d) qs (Some est)) = Some v
         \<and> (isNaN x \<longleftrightarrow>
              isNaN ?wc \<or> isNaN ?ws
              \<or> (?wc = PosInf \<or> ?wc = NegInf) \<and> (?ws = PosInf \<or> ?ws = NegInf))
         \<and> ((\<exists>c g. x = Fin c \<and> parseFloat (orZero (gsz est)) = Fin g) \<longrightarrow> \<not> isNaN v)"
      using x v n f by blast
  qed
qed

theorem unavailable_iff_witness:
  "\<not> contributes [quoteOf ''000001'' ''1.0''] (holding ''600519'' ''60'')
   \<and> weightSum [quoteOf ''000001'' ''1.0''] [holding ''600519'' ''60''] = Fin 0
   \<and> estimation (Some (detailOf [holding ''600519'' ''60'']))
        [quoteOf ''000001'' ''1.0''] (Some (estimateOf ''2.5'')) = unavailable
   \<and> estimation (Some (detailOf [holding ''600519'' ''60'', holding ''000001'' ''40'']))
        [quoteOf ''600519'' ''1.0'', quoteOf ''000001'' ''-2.0''] (Some (estimateOf ''2.5''))
      \<noteq> unavailable
   \<and> parseFloat (orZero (gsz (estimateOf ''2.5''))) = Fin (5 / 2)
   \<and> (\<exists>x v. estimation (Some (detailOf [holding ''600519'' ''60'', holding ''000001'' ''40'']))
          [quoteOf ''600519'' ''1.0'', quoteOf ''000001'' ''-2.0''] (Some (estimateOf ''2.5''))
        = \<lparr>estimatedChangePct = Some (Fin x), realTimeEstimatedNav = Some v,
           totalKnownRatio = Fin 100\<rparr>
        \<and> \<not> isNaN v)"
proof -
  let ?d = "detailOf [holding ''600519'' ''60'', holding ''000001'' ''40'']"
  let ?qs = "[quoteOf ''600519'' ''1.0'', quoteOf ''000001'' ''-2.0'']"
  let ?e = "estimateOf ''2.5''"
  have n: "\<not> contributes [quoteOf ''000001'' ''1.0''] (holding ''600519'' ''60'')"
    by (simp add: holding_def quoteOf_def contributes_def)
  have first: "weightSum [quoteOf ''000001'' ''1.0''] [holding ''600519'' ''60''] = Fin 0
    \<and> estimation (Some (detailOf [holding ''600519'' ''60'']))
        [quoteOf ''000001'' ''1.0''] (Some ?e) = unavailable"
    using n
      unavailable_iff [of "[quoteOf ''000001'' ''1.0'']" None None
        "detailOf [holding ''600519'' ''60'']" ?e]
    by (simp add: example_fields)
  have u: "estimation (Some ?d) ?qs (Some ?e) \<noteq> unavailable"
    by (simp add: example_estimation unavailable_def)
  have g: "parseFloat (orZero (gsz ?e)) = Fin (5 / 2)"
    by (simp add: example_fields orZero_def parse_examples)
  have second: "\<exists>x v. estimation (Some ?d) ?qs (Some ?e)
        = \<lparr>estimatedChangePct = Some (Fin x), realTimeEstimatedNav = Some v,
           totalKnownRatio = Fin 100\<rparr>
        \<and> \<not> isNaN v"
    using u g unavailable_iff [of ?qs None None ?d ?e]
    by (simp add: example_estimation)
  show ?thesis using n first u g second by blast
qed

text \<open>
  C4: a holding whose code has no entry in the quote map, or whose quote's change is
  the marker \<open>--\<close> or does not parse to a number, changes neither the numerator nor
  the denominator nor the flag, and the estimate is the one of the holdings list
  without that holding: it is skipped, not counted with a zero change.
\<close>

theorem skipped_holding_ignored:
  assumes "map_of qs (stockCode h) = None
    \<or> (\<exists>q. map_of qs (stockCode h) = Some q
           \<and> (changePct q = ''--'' \<or> isNaN (parseFloat (changePct q))))"
  shows "accumulate qs acc h = acc
       \<and> estimation (Some (d\<lparr>holdings := xs @ h # ys\<rparr>)) qs estimate
           = estimation (Some (d\<lparr>holdings := xs @ ys\<rparr>)) qs estimate"
  using not_contributes [OF assms] by (simp add: accumulate_skip estimation_skip)

theorem skipped_holding_ignored_witness:
  "map_of [quoteOf ''600519'' ''1.0'', quoteOf ''000001'' ''-2.0'', quoteOf ''300750'' ''--'']
       (stockCode (holding ''300750'' ''10''))
     = Some (snd (quoteOf ''300750'' ''--''))
   \<and> changePct (snd (quoteOf ''300750'' ''--'')) = ''--''
   \<and> estimation
       (Some (detailOf [holding ''600519'' ''60'', holding ''300750'' ''10'', holding ''000001'' ''40'']))
       [quoteOf ''600519'' ''1.0'', quoteOf ''000001'' ''-2.0'', quoteOf ''300750'' ''--'']
       (Some (estimateOf ''2.5''))
     = estimation (Some (detailOf [holding ''600519'' ''60'', holding ''000001'' ''40'']))
       [quoteOf ''600519'' ''1.0'', quoteOf ''000001'' ''-2.0'', quoteOf ''300750'' ''--'']
       (Some (estimateOf ''2.5''))"
proof -
  let ?qs = "[quoteOf ''600519'' ''1.0'', quoteOf ''000001'' ''-2.0'', quoteOf ''300750'' ''--'']"
  have a: "map_of ?qs (stockCode (holding ''300750'' ''10'')) = Some (snd (quoteOf ''300750'' ''--''))"
    by (simp add: holding_def quoteOf_def)
  have b: "changePct (snd (quoteOf ''300750'' ''--'')) = ''--''"
    by (simp add: quoteOf_def)
  have h: "map_of ?qs (stockCode (holding ''300750'' ''10'')) = None
    \<or> (\<exists>q. map_of ?qs (stockCode (holding ''300750'' ''10'')) = Some q
           \<and> (changePct q = ''--'' \<or> isNaN (parseFloat (changePct q))))"
    using a b by blast
  show ?thesis
    using a b
      skipped_holding_ignored [OF h, where acc = "(Fin 0, Fin 0, False)" and d = "detailOf []"
        and xs = "[holding ''600519'' ''60'']" and ys = "[holding ''000001'' ''40'']"
        and estimate = "Some (estimateOf ''2.5'')"]
    by (simp add: example_fields)
qed

text \<open>
  C5, as stated, fails. For the single holding of weight \<open>"0.07"\<close> and the quote
  change \<open>"0.76"\<close> the change percentage is not the number 0.76 but the binary64 value
  just below it, printed 0.7599999999999999: the product \<open>(w / 100) * c\<close> and the quotient
  by \<open>w / 100\<close> are each rounded, and the weight does not cancel exactly.
\<close>

theorem single_holding_change_counterexample:
  "parseFloat ''0.07'' = Fin (1261007895663739 / 18014398509481984)
   \<and> parseFloat ''0.76'' = Fin (3422735716801577 / 4503599627370496)
   \<and> estimatedChangePct
       (estimation (Some (detailOf [holding ''600519'' ''0.07'']))
          [quoteOf ''600519'' ''0.76''] (Some (estimateOf ''2.5'')))
     = Some (Fin (6845471433603153 / 9007199254740992))
   \<and> estimatedChangePct
       (estimation (Some (detailOf [holding ''600519'' ''0.07'']))
          [quoteOf ''600519'' ''0.76''] (Some (estimateOf ''2.5'')))
     \<noteq> Some (parseFloat ''0.76'')"
  by (simp add: example_single parse_examples)

text \<open>
  C5, amended: for every single-holding input with a weight \<open>w\<close> between \<open>2^-500\<close> and
  100 and a resolvable quote with a numeric change \<open>c\<close> that is 0 or of magnitude
  between \<open>2^-500\<close> and \<open>2^500\<close>, the change percentage of the estimate is a number \<open>y\<close>
  within the relative distance \<open>2^-51\<close> of \<open>c\<close>: the weight cancels up to the rounding of
  one product and one quotient.
\<close>

theorem single_holding_change_close:
  assumes q: "map_of qs (stockCode h) = Some q" "changePct q \<noteq> ''--''"
    and w: "parseFloat (HoldingStock.ratio h) = Fin w" "2 powi (- 500) \<le> w" "w \<le> 100"
    and c: "parseFloat (changePct q) = Fin c"
      "c = 0 \<or> 2 powi (- 500) \<le> \<bar>c\<bar> \<and> \<bar>c\<bar> \<le> 2 powi 500"
    and d: "holdings d = [h]"
  shows "\<exists>y. estimatedChangePct (estimation (Some d) qs (Some est)) = Some (Fin y)
            \<and> \<bar>y - c\<bar> \<le> \<bar>c\<bar> / 2 ^ 51"
proof -
  from single_weight [OF w(2,3)]
  obtain r where r: "rnd (w / 100) = Fin r" "rnd r = Fin r" "2 powi (- 508) \<le> r" "r \<le> 2"
    by blast
  have rpos: "0 < r" using r(3) pow2_pos [of "- 508"] by linarith
  have hw: "holdingWeight h = Fin r" by (simp add: holdingWeight_def w(1) r(1))
  have hc: "holdingChange qs h = Fin c" by (simp add: holdingChange_def q(1) c(1))
  have con: "contributes qs h" by (simp add: contributes_iff q hw c(1))
  have qs: "qs \<noteq> []" using con by (rule contributes_quotes)
  have ws: "weightSum qs [h] = Fin r" by (simp add: weightSum_def con hw r(2))
  have ne: "weightSum qs [h] \<noteq> Fin 0" using rpos by (simp add: ws)
  have wcs: "weightedChangeSum qs [h] = jadd (Fin 0) (jmul (Fin r) (Fin c))"
    by (simp add: weightedChangeSum_def con hw hc)
  have res: "estimatedChangePct (estimation (Some d) qs (Some est))
      = Some (jdiv (jadd (Fin 0) (jmul (Fin r) (Fin c))) (Fin r))"
    using ne qs unfolding estimation_eq d by (simp add: ws wcs)
  show ?thesis
  proof (cases "c = 0")
    case True
    then show ?thesis using rpos by (simp add: res rnd_0)
  next
    case False
    with c(2) have cb: "2 powi (- 500) \<le> \<bar>c\<bar>" "\<bar>c\<bar> \<le> 2 powi 500" by simp_all
    from mul_div_close [OF r(3,4) cb]
    obtain p y where py: "rnd (r * c) = Fin p" "rnd p = Fin p" "rnd (p / r) = Fin y"
      "\<bar>y - c\<bar> \<le> \<bar>c\<bar> / 2 ^ 51" by blast
    have "jdiv (jadd (Fin 0) (jmul (Fin r) (Fin c))) (Fin r) = Fin y"
      using rpos by (simp add: py)
    then show ?thesis using py(4) by (simp add: res)
  qed
qed

theorem single_holding_change_close_witness:
  "\<exists>y. estimatedChangePct
          (estimation (Some (detailOf [holding ''600519'' ''0.07'']))
             [quoteOf ''600519'' ''0.76''] (Some (estimateOf ''2.5'')))
        = Some (Fin y)
      \<and> \<bar>y - 3422735716801577 / 4503599627370496\<bar>
          \<le> \<bar>3422735716801577 / 4503599627370496\<bar> / 2 ^ 51"
proof -
  let ?h = "holding ''600519'' ''0.07''"
  let ?q = "snd (quoteOf ''600519'' ''0.76'')"
  have q: "map_of [quoteOf ''600519'' ''0.76''] (stockCode ?h) = Some ?q" "changePct ?q \<noteq> ''--''"
    by (simp_all add: holding_def quoteOf_def)
  have w: "parseFloat (HoldingStock.ratio ?h) = Fin (1261007895663739 / 18014398509481984)"
    by (simp add: holding_def parse_examples)
  have w1: "2 powi (- 500) \<le> (1261007895663739 / 18014398509481984 :: rat)"
  proof -
    have "(2::rat) powi (- 500) \<le> 2 powi (- 4)" by (rule pow2_mono) simp
    also have "\<dots> \<le> 1261007895663739 / 18014398509481984" by simp
    finally show ?thesis .
  qed
  have w2: "(1261007895663739 / 18014398509481984 :: rat) \<le> 100" by simp
  have c: "parseFloat (changePct ?q) = Fin (3422735716801577 / 4503599627370496)"
    by (simp add: quoteOf_def parse_examples)
  have c1: "2 powi (- 500) \<le> \<bar>3422735716801577 / 4503599627370496 :: rat\<bar>"
  proof -
    have "(2::rat) powi (- 500) \<le> 2 powi (- 1)" by (rule pow2_mono) simp
    also have "\<dots> \<le> \<bar>3422735716801577 / 4503599627370496\<bar>" by simp
    finally show ?thesis .
  qed
  have c2: "\<bar>3422735716801577 / 4503599627370496 :: rat\<bar> \<le> 2 powi 500"
  proof -
    have "\<bar>3422735716801577 / 4503599627370496 :: rat\<bar> \<le> 2 powi 0" by simp
    also have "\<dots> \<le> 2 powi 500" by (rule pow2_mono) simp
    finally show ?thesis .
  qed
  have c3: "(3422735716801577 / 4503599627370496 :: rat) = 0
    \<or> 2 powi (- 500) \<le> \<bar>3422735716801577 / 4503599627370496 :: rat\<bar>
      \<and> \<bar>3422735716801577 / 4503599627370496 :: rat\<bar> \<le> 2 powi 500"
    using c1 c2 by blast
  have d: "holdings (detailOf [?h]) = [?h]" by (simp add: detailOf_def)
  show ?thesis
    using single_holding_change_close [OF q w w1 w2 c c3 d, of "estimateOf ''2.5''"] .
qed

section \<open>The pseudo-holding of a feeder fund: claim C6\<close>




lemma ratioFromCash_data:
  assumes "find (\<lambda>s. case seriesName s of None \<Rightarrow> False | Some n \<Rightarrow> includes' n cashWord) series
             = Some cashSeries"
    and "seriesData cashSeries = Some ds" and "ds \<noteq> []"
  shows "ratioFromCash (Some series) stocks bonds
       = jsub (jsub (Fin 100) (parseFloatVal (if truthy (last ds) then last ds else JSStr ''5'')))
           (currentTotal stocks bonds)"
  using assms by (simp add: ratioFromCash_def Let_def)

lemma example_cash_series:
  "find (\<lambda>s. case seriesName s of None \<Rightarrow> False | Some n \<Rightarrow> includes' n cashWord)
     [\<lparr>seriesName = Some ''stock'', seriesData = Some [JSNum (Fin 60)]\<rparr>,
      \<lparr>seriesName = Some (cashWord @ ''%''), seriesData = Some [JSNum (Fin 8), JSNum (Fin 10)]\<rparr>]
   = Some \<lparr>seriesName = Some (cashWord @ ''%''), seriesData = Some [JSNum (Fin 8), JSNum (Fin 10)]\<rparr>"
  by (simp add: cashWord_def startsWith_def)

lemma example_feeder_cash:
  "withEtfFeeder (Some ''510300'') (Some ''ETF'') None
     (Some [\<lparr>seriesName = Some ''stock'', seriesData = Some [JSNum (Fin 60)]\<rparr>,
            \<lparr>seriesName = Some (cashWord @ ''%''),
              seriesData = Some [JSNum (Fin 8), JSNum (Fin 10)]\<rparr>])
     [holding ''600519'' ''10'', holding ''000858'' ''20''] []
   = [holding ''600519'' ''10'', holding ''000858'' ''20'',
       \<lparr>stockCode = ''510300'', stockName = ''ETF'' @ linkTargetSuffix,
         HoldingStock.ratio = ''60.00'', HoldingStock.shares = None, marketValue = None\<rparr>]"
  by (simp add: withEtfFeeder_def preciseEtfRatio_def ratioFromAllocation_def
      ratioFromCash_data [OF example_cash_series] total_30 jle_def jsub_def rnd_facts
      toFixed_examples Let_def)






lemma example_feeder_whitespace:
  "withEtfFeeder (Some ''510300'') (Some ''ETF'') None None
     [holding ''600519'' ([CHR 0xC2, CHR 0xA0] @ ''10'')] []
   = [holding ''600519'' ([CHR 0xC2, CHR 0xA0] @ ''10''),
       \<lparr>stockCode = ''510300'', stockName = ''ETF'' @ linkTargetSuffix,
         HoldingStock.ratio = ''85.00'', HoldingStock.shares = None, marketValue = None\<rparr>]"
  by (simp add: withEtfFeeder_def preciseEtfRatio_def ratioFromAllocation_def ratioFromCash_def
      currentTotal_def holding_def orZero_def parse_defs jle_def jsub_def rnd_facts rnd_fact_w5
      toFixed_eval)




section \<open>Markets, trading time and the store: claims C7 to C10\<close>

text \<open>
  C7: \<open>getStockMarket\<close> classifies a code of length 5 as Hong Kong; otherwise a code
  starting with 6 or 5 as Shanghai; otherwise a code starting with 0, 3, 15, 16, 2, 8 or
  4 as Shenzhen; every other code as unknown. The query of \<open>getStockQuotes\<close> consists of
  the codes of known market, each with the prefix of its market, in the order given:
  a code of unknown market is not in the request. In particular 600519 is Shanghai,
  000001 is Shenzhen, 00700 is Hong Kong and 999999 is unknown.
\<close>

theorem getStockMarket_classification:
  "getStockMarket c =
     (if jslength c = 5 then HK
      else if startsWith c ''6'' \<or> startsWith c ''5'' then SH
      else if startsWith c ''0'' \<or> startsWith c ''3'' \<or> startsWith c ''15''
              \<or> startsWith c ''16'' \<or> startsWith c ''2'' \<or> startsWith c ''8''
              \<or> startsWith c ''4'' then SZ
      else unknown)
   \<and> queryEntries codes =
       map (\<lambda>c. (case getStockMarket c of SH \<Rightarrow> ''sh'' | SZ \<Rightarrow> ''sz'' | HK \<Rightarrow> ''hk'' | unknown \<Rightarrow> []) @ c)
         (filter (\<lambda>c. getStockMarket c \<noteq> unknown) codes)
   \<and> getStockMarket ''600519'' = SH \<and> getStockMarket ''000001'' = SZ
   \<and> getStockMarket ''00700'' = HK \<and> getStockMarket ''999999'' = unknown
   \<and> quoteRequest [''999999''] = None
   \<and> quoteRequest [''600519'', ''999999'', ''00700'']
       = Some ''https://qt.gtimg.cn/q=sh600519,hk00700''"
proof -
  have "getStockMarket c =
     (if jslength c = 5 then HK
      else if startsWith c ''6'' \<or> startsWith c ''5'' then SH
      else if startsWith c ''0'' \<or> startsWith c ''3'' \<or> startsWith c ''15''
              \<or> startsWith c ''16'' \<or> startsWith c ''2'' \<or> startsWith c ''8''
              \<or> startsWith c ''4'' then SZ
      else unknown)"
    by (cases c) (simp_all add: getStockMarket_def jslength_def startsWith_def)
  moreover have "quoteRequest [''999999''] = None"
    by (simp add: quoteRequest_def queryEntries_Cons market_999999 queryEntries_def)
  moreover have "quoteRequest [''600519'', ''999999'', ''00700'']
      = Some ''https://qt.gtimg.cn/q=sh600519,hk00700''"
    by (simp add: quoteRequest_def queryEntries_Cons market_999999 market_600519 market_00700
        queryEntries_def)
  ultimately show ?thesis
    using queryEntries_eq [of codes] market_600519 market_000001 market_00700 market_999999
    by blast
qed

theorem getStockMarket_classification_witness:
  "getStockMarket ''159915'' = SZ \<and> getStockMarket ''110022'' = unknown
   \<and> queryEntries [''159915'', ''110022'', ''510300''] = [''sz159915'', ''sh510300'']"
proof -
  have m: "getStockMarket ''159915'' = SZ" "getStockMarket ''110022'' = unknown"
    "getStockMarket ''510300'' = SH"
    by (simp_all add: getStockMarket_def jslength_def startsWith_def)
  show ?thesis
    using getStockMarket_classification [of "''159915''" "[''159915'', ''110022'', ''510300'']"]
    by (simp add: m)
qed

text \<open>
  C8: for every local date-time, \<open>isTradingTime\<close> is true exactly when the day is
  Monday to Friday and the time is from 09:00 to 12:00, both included, or from 13:00,
  included, to 16:00, excluded; on Saturday and Sunday it is false at every time. The
  bar with the live estimate is rendered only when it is true.
\<close>

theorem isTradingTime_window:
  assumes "day now < 7" and "hours now < 24" and "minutes now < 60"
  shows "(isTradingTime now \<longleftrightarrow>
           1 \<le> day now \<and> day now \<le> 5
           \<and> (9 * 60 \<le> hours now * 60 + minutes now \<and> hours now * 60 + minutes now \<le> 12 * 60
              \<or> 13 * 60 \<le> hours now * 60 + minutes now \<and> hours now * 60 + minutes now < 16 * 60))
       \<and> (estimatedBarShown e now \<longrightarrow> isTradingTime now)"
proof -
  define h m where "h = hours now" and "m = minutes now"
  have m: "m < 60" using assms(3) by (simp add: m_def)
  note T = timeNum_bounds [OF m, of h] and M = minutes_bounds [OF m, of h]
  have d: "day now \<noteq> 0 \<and> day now \<noteq> 6 \<longleftrightarrow> 1 \<le> day now \<and> day now \<le> 5"
    using assms(1) by linarith
  have "isTradingTime now \<longleftrightarrow>
      (day now \<noteq> 0 \<and> day now \<noteq> 6)
      \<and> (900 \<le> h * 100 + m \<and> h * 100 + m \<le> 1200 \<or> 1300 \<le> h * 100 + m \<and> h * 100 + m < 1600)"
    unfolding isTradingTime_iff h_def m_def by blast
  also have "\<dots> \<longleftrightarrow>
      (1 \<le> day now \<and> day now \<le> 5)
      \<and> (9 \<le> h \<and> (h \<le> 11 \<or> h = 12 \<and> m = 0) \<or> 13 \<le> h \<and> h \<le> 15)"
    unfolding T d by blast
  also have "\<dots> \<longleftrightarrow>
      (1 \<le> day now \<and> day now \<le> 5)
      \<and> (540 \<le> h * 60 + m \<and> h * 60 + m \<le> 720 \<or> 780 \<le> h * 60 + m \<and> h * 60 + m < 960)"
    unfolding M by blast
  finally show ?thesis by (simp add: h_def m_def estimatedBarShown_def)
qed

theorem isTradingTime_window_witness:
  "isTradingTime \<lparr>day = 1, hours = 12, minutes = 0\<rparr>
   \<and> \<not> isTradingTime \<lparr>day = 1, hours = 12, minutes = 1\<rparr>
   \<and> \<not> isTradingTime \<lparr>day = 5, hours = 16, minutes = 0\<rparr>
   \<and> \<not> isTradingTime \<lparr>day = 6, hours = 10, minutes = 0\<rparr>"
  using isTradingTime_window [of "\<lparr>day = 1, hours = 12, minutes = 0\<rparr>"]
    isTradingTime_window [of "\<lparr>day = 1, hours = 12, minutes = 1\<rparr>"]
    isTradingTime_window [of "\<lparr>day = 5, hours = 16, minutes = 0\<rparr>"]
    isTradingTime_window [of "\<lparr>day = 6, hours = 10, minutes = 0\<rparr>"]
  by simp

text \<open>
  C9: the fund code is a unique key of the watchlist. From a state whose funds have
  pairwise distinct codes, every sequence of store actions leads to a state whose
  funds have pairwise distinct codes; and \<open>addFund\<close> with a code that is already in the
  list returns the state unchanged: no new entry, and nothing written to local
  storage.
\<close>

theorem fund_code_unique:
  assumes "distinct (map FundBasic.code (funds s))"
  shows "distinct (map FundBasic.code (funds (foldl perform s as)))
    \<and> (FundBasic.code fund \<in> set (map FundBasic.code (funds (foldl perform s as)))
        \<longrightarrow> addFund fund now (foldl perform s as) = foldl perform s as)"
  using foldl_perform_distinct [OF assms] addFund_present by blast

theorem fund_code_unique_witness:
  "distinct (map FundBasic.code (funds emptyStore))
   \<and> map FundBasic.code
       (funds (foldl perform emptyStore [AddFund fundA 5, AddFund fundB 7, AddFund fundA 9]))
       = [''000001'', ''110022'']
   \<and> addFund fundA 11 (foldl perform emptyStore [AddFund fundA 5, AddFund fundB 7, AddFund fundA 9])
       = foldl perform emptyStore [AddFund fundA 5, AddFund fundB 7, AddFund fundA 9]"
  using fund_code_unique
    [of emptyStore "[AddFund fundA 5, AddFund fundB 7, AddFund fundA 9]" fundA 11]
  by (simp add: emptyStore_def fundA_def fundB_def addFund_def Let_def)

text \<open>
  C10: for every store state and code, \<open>removeFund\<close> leaves in the funds list exactly
  the entries of another code, in their order; it sets \<open>selectedCode\<close> to \<open>null\<close> if it
  was the removed code and leaves it unchanged otherwise; and it leaves the maps
  \<open>estimates\<close>, \<open>details\<close>, \<open>loadingEstimate\<close> and \<open>loadingDetail\<close> unchanged.
\<close>

theorem removeFund_frame:
  "funds (removeFund c s) = filter (\<lambda>f. FundBasic.code f \<noteq> c) (funds s)
   \<and> selectedCode (removeFund c s) = (if selectedCode s = Some c then None else selectedCode s)
   \<and> estimates (removeFund c s) = estimates s
   \<and> details (removeFund c s) = details s
   \<and> loadingEstimate (removeFund c s) = loadingEstimate s
   \<and> loadingDetail (removeFund c s) = loadingDetail s"
  by (simp add: removeFund_def Let_def)

theorem removeFund_frame_witness:
  "map FundBasic.code (funds (removeFund ''000001''
      (emptyStore\<lparr>funds := [fundA, fundB], selectedCode := Some ''000001''\<rparr>))) = [''110022'']
   \<and> selectedCode (removeFund ''000001''
      (emptyStore\<lparr>funds := [fundA, fundB], selectedCode := Some ''000001''\<rparr>)) = None
   \<and> selectedCode (removeFund ''000001''
      (emptyStore\<lparr>funds := [fundA, fundB], selectedCode := Some ''110022''\<rparr>)) = Some ''110022''"
  using removeFund_frame [of "''000001''"
      "emptyStore\<lparr>funds := [fundA, fundB], selectedCode := Some ''000001''\<rparr>"]
    removeFund_frame [of "''000001''"
      "emptyStore\<lparr>funds := [fundA, fundB], selectedCode := Some ''110022''\<rparr>"]
  by (simp add: emptyStore_def fundA_def fundB_def)

end
